theory Spec2Isabelle
  imports Complex_Main "HOL-Library.Product_Lexorder"
begin

section \<open>Calendar dates\<close>

text \<open>
  A parsed \<open>SETTLEMENT_DATE\<close> is a calendar date: year, month, day. The order of the
  triples (lexicographic) is the chronological order pandas sorts timestamps by.
  Floating-point columns are modelled by real numbers: rounding is not modelled.
\<close>

type_synonym date = "int \<times> nat \<times> nat"

definition is_leap :: "int \<Rightarrow> bool" where
  "is_leap y = (y mod 4 = 0 \<and> (y mod 100 \<noteq> 0 \<or> y mod 400 = 0))"

definition days_in_month :: "int \<Rightarrow> nat \<Rightarrow> nat" where
  "days_in_month y m =
     (if m = 2 then (if is_leap y then 29 else 28)
      else if m = 4 \<or> m = 6 \<or> m = 9 \<or> m = 11 then 30
      else 31)"

definition valid_date :: "date \<Rightarrow> bool" where
  "valid_date dt =
     (case dt of (y, m, d) \<Rightarrow>
        1 \<le> y \<and> y \<le> 9999 \<and> 1 \<le> m \<and> m \<le> 12 \<and> 1 \<le> d \<and> d \<le> days_in_month y m)"

definition dt_year :: "date \<Rightarrow> int" where
  "dt_year dt = fst dt"

definition dt_dayofyear :: "date \<Rightarrow> int" where
  "dt_dayofyear dt =
     (case dt of (y, m, d) \<Rightarrow> int (sum_list (map (days_in_month y) [1..<m]) + d))"

section \<open>Errors raised by the program\<close>

datatype error =
    ParseError
  | ValueError
  | IndexError
  | KeyError
  | AttributeError
  | IOError
  | ModuleNotFoundError
  | ImportError

section \<open>Library operations used by the constructor\<close>

text \<open>\<open>pd.to_datetime(col, format='%d-%b-%Y')\<close>: raises unless every entry is a date.\<close>

definition to_datetime :: "date list \<Rightarrow> error + date list" where
  "to_datetime ds = (if list_all valid_date ds then Inr ds else Inl ParseError)"

definition np_mean :: "real list \<Rightarrow> real" where
  "np_mean xs = sum_list xs / real (length xs)"

definition np_unique :: "int list \<Rightarrow> int list" where
  "np_unique xs = sort (remdups xs)"

text \<open>Python's builtin \<open>max\<close> raises \<open>ValueError\<close> on an empty sequence.\<close>

definition py_max :: "int list \<Rightarrow> error + int" where
  "py_max xs = (case xs of [] \<Rightarrow> Inl ValueError | y # ys \<Rightarrow> Inr (fold max ys y))"

text \<open>
  \<open>groupby('DATE').agg(DEMAND_AVERAGE=NamedAgg('ND', aggfunc=np.mean)).reset_index()\<close>:
  one row per distinct key, keys sorted ascending, each with the mean of the \<open>ND\<close>
  entries of the rows carrying that key.
\<close>

definition groupby_DATE_mean :: "(date \<times> real) list \<Rightarrow> (date \<times> real) list" where
  "groupby_DATE_mean rows =
     map (\<lambda>k. (k, np_mean (map snd (filter (\<lambda>r. fst r = k) rows))))
       (sort (remdups (map fst rows)))"

section \<open>The data of a GridData object\<close>

record csv_row =
  SETTLEMENT_DATE :: date
  ND :: real

record avg_row =
  DATE :: date
  DEMAND_AVERAGE :: real
  YEAR :: int
  DOY :: int

record gp_model =
  predict :: "real list \<Rightarrow> error + (real list \<times> real list)"

record GridData =
  grid :: "csv_row list"
  grid_average :: "avg_row list"
  X :: "real list"
  Y :: "real list"
  COVID_CUTOFF :: "nat option"
  forecast_limit :: "real option"
  model :: "gp_model option"
  output_dict :: "(string \<rightharpoonup> real list) option"
  X_PREDICT :: "real list option"
  Y_PREDICT_mean :: "real list option"
  Y_PREDICT_conf :: "real list option"
  X_COVID :: "real list option"
  Y_COVID :: "real list option"
  Y_COVID_PREDICT_mean :: "real list option"
  Y_COVID_PREDICT_conf :: "real list option"

section \<open>The constructor\<close>

definition make_grid_average :: "csv_row list \<Rightarrow> avg_row list" where
  "make_grid_average rows =
     map (\<lambda>(k, v). \<lparr>DATE = k, DEMAND_AVERAGE = v, YEAR = dt_year k, DOY = dt_dayofyear k\<rparr>)
       (groupby_DATE_mean (map (\<lambda>r. (SETTLEMENT_DATE r, ND r)) rows))"

text \<open>
  The loop over \<open>np.unique(YEAR)\<close>: the pseudo-day list grows by the year's days of the
  year shifted by \<open>OFFSET\<close>, then \<open>OFFSET\<close> grows by the year's largest day of the year.
\<close>

fun build_X :: "avg_row list \<Rightarrow> int list \<Rightarrow> int \<Rightarrow> int list \<Rightarrow> error + int list" where
  "build_X ga [] OFFSET acc = Inr acc"
| "build_X ga (year # years) OFFSET acc =
     (let sel = map DOY (filter (\<lambda>r. YEAR r = year) ga)
      in case py_max sel of
           Inl e \<Rightarrow> Inl e
         | Inr m \<Rightarrow> build_X ga years (OFFSET + m) (acc @ map (\<lambda>i. OFFSET + i) sel))"

definition pseudo_days :: "avg_row list \<Rightarrow> error + int list" where
  "pseudo_days ga = build_X ga (np_unique (map YEAR ga)) 0 []"

definition GridData_init :: "csv_row list \<Rightarrow> error + GridData" where
  "GridData_init rows =
     (case to_datetime (map SETTLEMENT_DATE rows) of
        Inl e \<Rightarrow> Inl e
      | Inr _ \<Rightarrow>
         (let ga = make_grid_average rows
          in case pseudo_days ga of
               Inl e \<Rightarrow> Inl e
             | Inr days \<Rightarrow>
                 Inr \<lparr>grid = rows, grid_average = ga,
                      X = map (\<lambda>i. real_of_int i / 365) days,
                      Y = map (\<lambda>v. v / 1000) (map DEMAND_AVERAGE ga),
                      COVID_CUTOFF = None, forecast_limit = None, model = None,
                      output_dict = None,
                      X_PREDICT = None, Y_PREDICT_mean = None, Y_PREDICT_conf = None,
                      X_COVID = None, Y_COVID = None,
                      Y_COVID_PREDICT_mean = None, Y_COVID_PREDICT_conf = None\<rparr>))"

definition get_data :: "GridData \<Rightarrow> csv_row list" where
  "get_data self = grid self"

definition get_data_average :: "GridData \<Rightarrow> avg_row list" where
  "get_data_average self = grid_average self"

section \<open>Loading the model\<close>

text \<open>
  \<open>np.linspace(start, stop, num)\<close> with the end point included: \<open>num\<close> samples,
  the \<open>i\<close>-th at \<open>start + i * step\<close> where \<open>step = (stop - start) / (num - 1)\<close>.
\<close>

definition np_linspace :: "real \<Rightarrow> real \<Rightarrow> nat \<Rightarrow> real list" where
  "np_linspace start stop num =
     map (\<lambda>i. start + real i * ((stop - start) / real (num - 1))) [0..<num]"

definition forecast_limit_default :: real where
  "forecast_limit_default = 7"

text \<open>
  What \<open>import GPy\<close> does: it succeeds, or it raises an exception.
\<close>

datatype import_outcome = ImportOk | ImportRaises error

text \<open>
  \<open>load_model\<close> mutates the object step by step, so the result is the exception raised
  (if any) together with the object as the call left it. \<open>gpy_import\<close> is the outcome of
  \<open>import GPy\<close>: the \<open>except\<close> clause swallows \<open>ModuleNotFoundError\<close> only, any other
  exception of the import reaches the caller. \<open>unpickled\<close> is what opening and unpickling
  \<open>model_file\<close> gives; the third argument is \<open>forecast_limit\<close>, \<open>None\<close> when the caller
  omits it.
\<close>

definition load_model ::
  "import_outcome \<Rightarrow> (error + gp_model) \<Rightarrow> real option \<Rightarrow> GridData \<Rightarrow> error option \<times> GridData"
  where
  "load_model gpy_import unpickled forecast_limit_arg self =
     (case gpy_import of
        ImportRaises e \<Rightarrow> (if e = ModuleNotFoundError then (None, self) else (Some e, self))
      | ImportOk \<Rightarrow>
       (let fl = (case forecast_limit_arg of None \<Rightarrow> forecast_limit_default | Some f \<Rightarrow> f);
            cutoff = 1881;
            s1 = self\<lparr>COVID_CUTOFF := Some cutoff, forecast_limit := Some fl\<rparr>
        in case unpickled of
             Inl e \<Rightarrow> (Some e, s1)
           | Inr m \<Rightarrow>
              (let s2 = s1\<lparr>model := Some m\<rparr>;
                   xp = np_linspace 0 fl 1000;
                   s3 = s2\<lparr>X_PREDICT := Some xp\<rparr>
               in case predict m xp of
                    Inl e \<Rightarrow> (Some e, s3)
                  | Inr (mean, conf) \<Rightarrow>
                     (let xc = drop cutoff (X s3);
                          yc = drop cutoff (Y s3);
                          s4 = s3\<lparr>Y_PREDICT_mean := Some mean, Y_PREDICT_conf := Some conf,
                                  X_COVID := Some xc, Y_COVID := Some yc\<rparr>
                      in case predict m xc of
                           Inl e \<Rightarrow> (Some e, s4)
                         | Inr (cmean, cconf) \<Rightarrow>
                             (None, s4\<lparr>Y_COVID_PREDICT_mean := Some cmean,
                                       Y_COVID_PREDICT_conf := Some cconf\<rparr>)))))"

text \<open>Subscripting a dictionary raises \<open>KeyError\<close> on a missing key.\<close>

definition dict_get :: "(string \<rightharpoonup> real list) \<Rightarrow> string \<Rightarrow> error + real list" where
  "dict_get d k = (case d k of None \<Rightarrow> Inl KeyError | Some v \<Rightarrow> Inr v)"

definition load_model_output ::
  "(error + (string \<rightharpoonup> real list)) \<Rightarrow> GridData \<Rightarrow> error option \<times> GridData" where
  "load_model_output unpickled self =
     (let s1 = self\<lparr>COVID_CUTOFF := Some 1881, forecast_limit := Some 7\<rparr>
      in case unpickled of
           Inl e \<Rightarrow> (Some e, s1)
         | Inr d \<Rightarrow>
            (let s2 = s1\<lparr>output_dict := Some d\<rparr>
             in case dict_get d ''X_PREDICT'' of
                  Inl e \<Rightarrow> (Some e, s2)
                | Inr xp \<Rightarrow>
             (let s3 = s2\<lparr>X_PREDICT := Some xp\<rparr>
              in case dict_get d ''Y_PREDICT_mean'' of
                  Inl e \<Rightarrow> (Some e, s3)
                | Inr mean \<Rightarrow>
              (case dict_get d ''Y_PREDICT_conf'' of
                  Inl e \<Rightarrow> (Some e, s3)
                | Inr conf \<Rightarrow>
              (let s4 = s3\<lparr>Y_PREDICT_mean := Some mean, Y_PREDICT_conf := Some conf\<rparr>
               in case dict_get d ''X_COVID'' of
                  Inl e \<Rightarrow> (Some e, s4)
                | Inr xc \<Rightarrow>
              (let s5 = s4\<lparr>X_COVID := Some xc\<rparr>
               in case dict_get d ''Y_COVID'' of
                  Inl e \<Rightarrow> (Some e, s5)
                | Inr yc \<Rightarrow>
              (let s6 = s5\<lparr>Y_COVID := Some yc\<rparr>
               in case dict_get d ''Y_COVID_PREDICT_mean'' of
                  Inl e \<Rightarrow> (Some e, s6)
                | Inr cmean \<Rightarrow>
              (case dict_get d ''Y_COVID_PREDICT_conf'' of
                  Inl e \<Rightarrow> (Some e, s6)
                | Inr cconf \<Rightarrow>
                  (None, s6\<lparr>Y_COVID_PREDICT_mean := Some cmean,
                            Y_COVID_PREDICT_conf := Some cconf\<rparr>)))))))))"

text \<open>
  The dictionary of an output file that was precomputed from a model, stated from the
  model and the data and not from \<open>load_model\<close>: under the keys of the interface, the
  grid of 1000 points from 0 to the forecast limit, the model's prediction on that grid,
  the rows of \<open>X\<close> and \<open>Y\<close> from row 1881 on, and the model's prediction on those rows of
  \<open>X\<close>. A prediction that raises leaves its two keys out.
\<close>

definition precomputed_output ::
  "gp_model \<Rightarrow> real \<Rightarrow> real list \<Rightarrow> real list \<Rightarrow> (string \<rightharpoonup> real list)" where
  "precomputed_output m limit xs ys =
     (\<lambda>k. if k = ''X_PREDICT'' then Some (np_linspace 0 limit 1000)
          else if k = ''Y_PREDICT_mean'' then
            (case predict m (np_linspace 0 limit 1000) of
               Inl _ \<Rightarrow> None | Inr p \<Rightarrow> Some (fst p))
          else if k = ''Y_PREDICT_conf'' then
            (case predict m (np_linspace 0 limit 1000) of
               Inl _ \<Rightarrow> None | Inr p \<Rightarrow> Some (snd p))
          else if k = ''X_COVID'' then Some (drop 1881 xs)
          else if k = ''Y_COVID'' then Some (drop 1881 ys)
          else if k = ''Y_COVID_PREDICT_mean'' then
            (case predict m (drop 1881 xs) of Inl _ \<Rightarrow> None | Inr p \<Rightarrow> Some (fst p))
          else if k = ''Y_COVID_PREDICT_conf'' then
            (case predict m (drop 1881 xs) of Inl _ \<Rightarrow> None | Inr p \<Rightarrow> Some (snd p))
          else None)"

section \<open>Plots\<close>

text \<open>
  A figure is the list of glyphs added to it, in order, with the axis labels; the value a
  plot function returns is the figure it shows. The size of the figure and the tick
  format play no part and are left out. Elementwise division of arrays does not raise on a
  zero divisor: the quotient is then infinite or not a number.
\<close>

datatype npfloat = Finite real | PosInf | NegInf | NaN

datatype xdata = Dates "date list" | Ints "int list"

datatype legend = LegendText string | LegendYear int

record glyph_style =
  g_color :: "string option"
  g_alpha :: "real option"
  g_line_width :: "real option"
  g_line_dash :: "string option"
  g_legend_label :: "legend option"

datatype glyph =
    Line xdata "npfloat list" glyph_style
  | VArea xdata "npfloat list" "npfloat list" glyph_style

fun glyph_style_of :: "glyph \<Rightarrow> glyph_style" where
  "glyph_style_of (Line _ _ st) = st"
| "glyph_style_of (VArea _ _ _ st) = st"

record figure =
  glyphs :: "glyph list"
  x_axis_label :: string
  y_axis_label :: string

definition no_style :: glyph_style where
  "no_style = \<lparr>g_color = None, g_alpha = None, g_line_width = None, g_line_dash = None,
               g_legend_label = None\<rparr>"

definition colors :: "string list" where
  "colors = [''darkgreen'', ''darkkhaki'', ''darkmagenta'', ''darksalmon'', ''darkred'', ''gold'']"

text \<open>Subscripting a list with a non-negative index raises \<open>IndexError\<close> past the end.\<close>

definition list_get :: "'a list \<Rightarrow> nat \<Rightarrow> error + 'a" where
  "list_get xs i = (if i < length xs then Inr (xs ! i) else Inl IndexError)"

fun demand_lines :: "avg_row list \<Rightarrow> int list \<Rightarrow> nat \<Rightarrow> glyph list \<Rightarrow> error + glyph list" where
  "demand_lines ga [] i acc = Inr acc"
| "demand_lines ga (year # years) i acc =
     (let sel = filter (\<lambda>r. YEAR r = year) ga
      in case list_get colors i of
           Inl e \<Rightarrow> Inl e
         | Inr c \<Rightarrow>
             demand_lines ga years (i + 1)
               (acc @ [Line (Ints (map DOY sel)) (map (Finite \<circ> DEMAND_AVERAGE) sel)
                         (no_style\<lparr>g_line_width := Some 2,
                                   g_alpha := Some (0.4 + 0.1 * real i),
                                   g_legend_label := Some (LegendYear year),
                                   g_color := Some c\<rparr>)]))"

definition plot_demand_bkh :: "bool \<Rightarrow> string \<Rightarrow> GridData \<Rightarrow> error + figure" where
  "plot_demand_bkh collapse color self =
     (if collapse then
        (case demand_lines (grid_average self) (np_unique (map YEAR (grid_average self))) 0 [] of
           Inl e \<Rightarrow> Inl e
         | Inr gs \<Rightarrow>
             Inr \<lparr>glyphs = gs, x_axis_label = ''Day of the Year'',
                  y_axis_label = ''Demand (MW)''\<rparr>)
      else
        Inr \<lparr>glyphs = [Line (Dates (map DATE (grid_average self)))
                         (map (Finite \<circ> DEMAND_AVERAGE) (grid_average self))
                         (no_style\<lparr>g_color := Some color\<rparr>)],
             x_axis_label = ''Year'', y_axis_label = ''Demand (MW)''\<rparr>)"

text \<open>Reading an attribute that was never set raises \<open>AttributeError\<close>.\<close>

definition getattr :: "'a option \<Rightarrow> error + 'a" where
  "getattr a = (case a of None \<Rightarrow> Inl AttributeError | Some v \<Rightarrow> Inr v)"

text \<open>
  A binary operation on two flat arrays: elementwise when the lengths agree, a length-one
  array is stretched, any other pair of lengths raises \<open>ValueError\<close>.
\<close>

definition np_elementwise ::
  "(real \<Rightarrow> real \<Rightarrow> 'a) \<Rightarrow> real list \<Rightarrow> real list \<Rightarrow> error + 'a list" where
  "np_elementwise f xs ys =
     (if length xs = length ys then Inr (map2 f xs ys)
      else if length xs = 1 then Inr (map (f (hd xs)) ys)
      else if length ys = 1 then Inr (map (\<lambda>x. f x (hd ys)) xs)
      else Inl ValueError)"

definition float_div :: "real \<Rightarrow> real \<Rightarrow> npfloat" where
  "float_div a b =
     (if b \<noteq> 0 then Finite (a / b)
      else if 0 < a then PosInf else if a < 0 then NegInf else NaN)"

definition is_finite :: "npfloat \<Rightarrow> bool" where
  "is_finite v = (case v of Finite _ \<Rightarrow> True | _ \<Rightarrow> False)"

definition np_divide :: "real list \<Rightarrow> real list \<Rightarrow> error + npfloat list" where
  "np_divide xs ys = np_elementwise float_div xs ys"

text \<open>\<open>num / (a + b)\<close> and \<open>num / (a - b)\<close> on arrays: the inner operation first.\<close>

definition ratio_to ::
  "(real \<Rightarrow> real \<Rightarrow> real) \<Rightarrow> real list \<Rightarrow> real list \<Rightarrow> real list \<Rightarrow> error + npfloat list" where
  "ratio_to f num a b =
     (case np_elementwise f a b of Inl e \<Rightarrow> Inl e | Inr den \<Rightarrow> np_divide num den)"

definition confidence_area :: "GridData \<Rightarrow> error + glyph" where
  "confidence_area self =
     (case getattr (COVID_CUTOFF self) of Inl e \<Rightarrow> Inl e | Inr cutoff \<Rightarrow>
     (case getattr (Y_COVID self) of Inl e \<Rightarrow> Inl e | Inr yc \<Rightarrow>
     (case getattr (Y_COVID_PREDICT_mean self) of Inl e \<Rightarrow> Inl e | Inr cmean \<Rightarrow>
     (case getattr (Y_COVID_PREDICT_conf self) of Inl e \<Rightarrow> Inl e | Inr cconf \<Rightarrow>
     (case ratio_to (+) yc cmean cconf of Inl e \<Rightarrow> Inl e | Inr y1 \<Rightarrow>
     (case ratio_to (-) yc cmean cconf of Inl e \<Rightarrow> Inl e | Inr y2 \<Rightarrow>
        Inr (VArea (Dates (drop cutoff (map DATE (grid_average self)))) y1 y2
               (no_style\<lparr>g_alpha := Some 0.2,
                         g_legend_label := Some (LegendText ''Confidence'')\<rparr>))))))))"

definition reference_line :: "GridData \<Rightarrow> error + glyph" where
  "reference_line self =
     (case getattr (COVID_CUTOFF self) of Inl e \<Rightarrow> Inl e | Inr cutoff \<Rightarrow>
        Inr (Line (Dates (drop cutoff (map DATE (grid_average self))))
               (replicate (length (drop cutoff (map DATE (grid_average self)))) (Finite 1))
               (no_style\<lparr>g_line_dash := Some ''dashed'', g_color := Some ''black''\<rparr>)))"

definition mean_line :: "GridData \<Rightarrow> error + glyph" where
  "mean_line self =
     (case getattr (COVID_CUTOFF self) of Inl e \<Rightarrow> Inl e | Inr cutoff \<Rightarrow>
     (case getattr (Y_COVID self) of Inl e \<Rightarrow> Inl e | Inr yc \<Rightarrow>
     (case getattr (Y_COVID_PREDICT_mean self) of Inl e \<Rightarrow> Inl e | Inr cmean \<Rightarrow>
     (case np_divide yc cmean of Inl e \<Rightarrow> Inl e | Inr y \<Rightarrow>
        Inr (Line (Dates (drop cutoff (map DATE (grid_average self)))) y
               (no_style\<lparr>g_legend_label := Some (LegendText ''Mean'')\<rparr>))))))"

definition plot_demand_discrepancy_bkh :: "bool \<Rightarrow> GridData \<Rightarrow> error + figure" where
  "plot_demand_discrepancy_bkh plot_confidence self =
     (case (if plot_confidence
            then (case confidence_area self of Inl e \<Rightarrow> Inl e | Inr g \<Rightarrow> Inr [g])
            else Inr []) of
        Inl e \<Rightarrow> Inl e
      | Inr area \<Rightarrow>
     (case reference_line self of
        Inl e \<Rightarrow> Inl e
      | Inr ref \<Rightarrow>
     (case mean_line self of
        Inl e \<Rightarrow> Inl e
      | Inr mean \<Rightarrow>
          Inr \<lparr>glyphs = area @ [ref, mean], x_axis_label = ''Date'',
               y_axis_label = ''Net Demand (True) / Net Demand (Expected)''\<rparr>)))"

section \<open>A small dataset\<close>

text \<open>
  Six half-hourly readings in arbitrary order, on four days that straddle the end of 2015;
  2016 is a leap year, so its last day is day 366.
\<close>

definition example_rows :: "csv_row list" where
  "example_rows =
     [\<lparr>SETTLEMENT_DATE = (2016, 12, 31), ND = 20000\<rparr>,
      \<lparr>SETTLEMENT_DATE = (2015, 12, 31), ND = 29000\<rparr>,
      \<lparr>SETTLEMENT_DATE = (2015, 12, 30), ND = 28000\<rparr>,
      \<lparr>SETTLEMENT_DATE = (2015, 12, 31), ND = 31000\<rparr>,
      \<lparr>SETTLEMENT_DATE = (2016, 1, 1), ND = 25000\<rparr>,
      \<lparr>SETTLEMENT_DATE = (2016, 12, 31), ND = 22000\<rparr>]"

text \<open>The object the constructor builds from these readings.\<close>

definition example_object :: GridData where
  "example_object =
     \<lparr>grid = example_rows, grid_average = make_grid_average example_rows,
      X = [364 / 365, 1, 366 / 365, 731 / 365], Y = [28, 30, 25, 21],
      COVID_CUTOFF = None, forecast_limit = None, model = None, output_dict = None,
      X_PREDICT = None, Y_PREDICT_mean = None, Y_PREDICT_conf = None,
      X_COVID = None, Y_COVID = None,
      Y_COVID_PREDICT_mean = None, Y_COVID_PREDICT_conf = None\<rparr>"

text \<open>
  A longer dataset: one reading of 30000 MW on each of 1883 days, 28 days in every month
  from January 2015 on, so that two rows lie past row 1881. And a model that predicts a
  mean of 30 with confidence 1 everywhere.
\<close>

definition long_rows :: "csv_row list" where
  "long_rows =
     map (\<lambda>k. \<lparr>SETTLEMENT_DATE = (2015 + int (k div 336), 1 + (k div 28) mod 12, 1 + k mod 28),
               ND = 30000\<rparr>)
       [0..<1883]"

definition example_model :: gp_model where
  "example_model = \<lparr>predict = (\<lambda>xs. Inr (map (\<lambda>x. 30) xs, map (\<lambda>x. 1) xs))\<rparr>"

text \<open>
  A model whose confidence equals its mean, and a dataset with one reading on New Year's
  Day of seven consecutive years.
\<close>

definition degenerate_model :: gp_model where
  "degenerate_model = \<lparr>predict = (\<lambda>xs. Inr (map (\<lambda>x. 30) xs, map (\<lambda>x. 30) xs))\<rparr>"

definition seven_year_rows :: "csv_row list" where
  "seven_year_rows =
     [\<lparr>SETTLEMENT_DATE = (2015, 1, 1), ND = 30000\<rparr>,
      \<lparr>SETTLEMENT_DATE = (2016, 1, 1), ND = 30000\<rparr>,
      \<lparr>SETTLEMENT_DATE = (2017, 1, 1), ND = 30000\<rparr>,
      \<lparr>SETTLEMENT_DATE = (2018, 1, 1), ND = 30000\<rparr>,
      \<lparr>SETTLEMENT_DATE = (2019, 1, 1), ND = 30000\<rparr>,
      \<lparr>SETTLEMENT_DATE = (2020, 1, 1), ND = 30000\<rparr>,
      \<lparr>SETTLEMENT_DATE = (2021, 1, 1), ND = 30000\<rparr>]"

section \<open>Facts about dates\<close>

lemma days_before_mono:
  "m1 \<le> m2 \<Longrightarrow> sum_list (map (days_in_month y) [1..<m1]) \<le> sum_list (map (days_in_month y) [1..<m2])"
proof (induction m2)
  case 0
  then show ?case by simp
next
  case (Suc m2)
  show ?case
  proof (cases "m1 = Suc m2")
    case True
    then show ?thesis by simp
  next
    case False
    with Suc.prems have le: "m1 \<le> m2" by simp
    from Suc.IH [OF le] show ?thesis
      by (cases "1 \<le> m2") (simp_all add: upt_rec [of 1 "Suc m2"] )
  qed
qed

lemma days_before_Suc:
  "1 \<le> m \<Longrightarrow> sum_list (map (days_in_month y) [1..<Suc m]) =
     sum_list (map (days_in_month y) [1..<m]) + days_in_month y m"
  by simp

lemma dayofyear_pos: "valid_date dt \<Longrightarrow> 1 \<le> dt_dayofyear dt"
  by (cases dt) (simp add: valid_date_def dt_dayofyear_def)

lemma dayofyear_strict:
  assumes "valid_date a" "valid_date b" "dt_year a = dt_year b" "a < b"
  shows "dt_dayofyear a < dt_dayofyear b"
proof -
  obtain y m1 d1 where a: "a = (y, m1, d1)" by (cases a)
  obtain y2 m2 d2 where b: "b = (y2, m2, d2)" by (cases b)
  from assms(3) a b have y2: "y2 = y" by (simp add: dt_year_def)
  from assms(4) a b y2 have lt: "m1 < m2 \<or> (m1 = m2 \<and> d1 < d2)"
    by (auto simp: less_prod_def)
  from assms(1) a have va: "1 \<le> m1" "d1 \<le> days_in_month y m1" by (simp_all add: valid_date_def)
  from assms(2) b y2 have vb: "1 \<le> d2" by (simp_all add: valid_date_def)
  from lt show ?thesis
  proof
    assume m: "m1 < m2"
    then have "Suc m1 \<le> m2" by simp
    from days_before_mono [OF this, of y] days_before_Suc [OF va(1), of y]
    have "sum_list (map (days_in_month y) [1..<m1]) + days_in_month y m1
            \<le> sum_list (map (days_in_month y) [1..<m2])" by simp
    with va(2) vb show ?thesis
      unfolding a b y2 dt_dayofyear_def by simp
  next
    assume "m1 = m2 \<and> d1 < d2"
    then show ?thesis unfolding a b y2 dt_dayofyear_def by simp
  qed
qed

section \<open>Facts about the constructor\<close>

lemma py_max_Cons: "xs \<noteq> [] \<Longrightarrow> py_max xs = Inr (Max (set xs))"
  by (cases xs) (simp_all add: py_max_def Max.set_eq_fold [symmetric])

lemma groupby_keys:
  "map fst (groupby_DATE_mean rows) = sort (remdups (map fst rows))"
  by (simp add: groupby_DATE_mean_def comp_def)

lemma grid_average_DATE:
  "map DATE (make_grid_average rows) = sort (remdups (map SETTLEMENT_DATE rows))"
proof -
  have "map DATE (make_grid_average rows) =
          map fst (groupby_DATE_mean (map (\<lambda>r. (SETTLEMENT_DATE r, ND r)) rows))"
    by (simp add: make_grid_average_def comp_def case_prod_beta)
  then show ?thesis by (simp add: groupby_keys comp_def)
qed

lemma grid_average_sorted: "sorted_wrt (<) (map DATE (make_grid_average rows))"
  by (simp add: grid_average_DATE strict_sorted_iff)

lemma grid_average_length:
  "length (make_grid_average rows) = card (set (map SETTLEMENT_DATE rows))"
proof -
  have "length (make_grid_average rows) = length (map DATE (make_grid_average rows))" by simp
  also have "\<dots> = length (remdups (map SETTLEMENT_DATE rows))"
    by (simp only: grid_average_DATE length_sort)
  also have "\<dots> = card (set (map SETTLEMENT_DATE rows))"
    by (simp only: length_remdups_card_conv)
  finally show ?thesis .
qed

lemma grid_average_row:
  assumes "r \<in> set (make_grid_average rows)"
  shows "DATE r \<in> set (map SETTLEMENT_DATE rows) \<and>
         YEAR r = dt_year (DATE r) \<and> DOY r = dt_dayofyear (DATE r) \<and>
         DEMAND_AVERAGE r =
           np_mean (map ND (filter (\<lambda>c. SETTLEMENT_DATE c = DATE r) rows))"
proof -
  from assms obtain k where k: "k \<in> set (map SETTLEMENT_DATE rows)"
    and r: "r = \<lparr>DATE = k,
                 DEMAND_AVERAGE = np_mean (map snd (filter (\<lambda>p. fst p = k)
                                     (map (\<lambda>r. (SETTLEMENT_DATE r, ND r)) rows))),
                 YEAR = dt_year k, DOY = dt_dayofyear k\<rparr>"
    by (auto simp: make_grid_average_def groupby_DATE_mean_def)
  have "map snd (filter (\<lambda>p. fst p = k) (map (\<lambda>r. (SETTLEMENT_DATE r, ND r)) rows)) =
        map ND (filter (\<lambda>c. SETTLEMENT_DATE c = k) rows)"
    by (induction rows) simp_all
  with k r show ?thesis by simp
qed

lemma count_by_key:
  assumes "distinct ys" "set (map f xs) \<subseteq> set ys"
  shows "sum_list (map (\<lambda>y. length (filter (\<lambda>r. f r = y) xs)) ys) = length xs"
proof -
  have "(\<Sum>y\<in>set ys. length (filter (\<lambda>r. f r = y) xs)) = length xs"
    using assms(2)
  proof (induction xs)
    case Nil
    then show ?case by simp
  next
    case (Cons x xs)
    then have mem: "f x \<in> set ys" and sub: "set (map f xs) \<subseteq> set ys" by simp_all
    have "(\<Sum>y\<in>set ys. length (filter (\<lambda>r. f r = y) (x # xs))) =
          (\<Sum>y\<in>set ys. (if f x = y then 1 else 0) + length (filter (\<lambda>r. f r = y) xs))"
      by (rule sum.cong) simp_all
    also have "\<dots> = (\<Sum>y\<in>set ys. (if f x = y then 1 else 0)) +
                     (\<Sum>y\<in>set ys. length (filter (\<lambda>r. f r = y) xs))"
      by (simp add: sum.distrib)
    also have "(\<Sum>y\<in>set ys. (if f x = y then 1 else (0::nat))) = 1"
      using mem by simp
    finally show ?case using Cons.IH [OF sub] by simp
  qed
  then show ?thesis using assms(1) by (simp add: sum_list_distinct_conv_sum_set)
qed

lemma build_X_spec:
  assumes years: "\<forall>y\<in>set years. \<exists>r\<in>set ga. YEAR r = y"
    and per_year: "\<And>y. sorted_wrt (<) (map DOY (filter (\<lambda>r. YEAR r = y) ga))"
    and pos: "\<forall>r\<in>set ga. 1 \<le> DOY r"
    and acc: "sorted_wrt (<) acc" "\<forall>a\<in>set acc. a \<le> OFFSET"
  shows "\<exists>out. build_X ga years OFFSET acc = Inr out \<and> sorted_wrt (<) out \<and>
           length out =
             length acc + sum_list (map (\<lambda>y. length (filter (\<lambda>r. YEAR r = y) ga)) years)"
  using years acc
proof (induction years arbitrary: OFFSET acc)
  case Nil
  then show ?case by simp
next
  case (Cons year years)
  define sel where "sel = map DOY (filter (\<lambda>r. YEAR r = year) ga)"
  from Cons.prems(1) have ne: "sel \<noteq> []"
    by (auto simp: sel_def filter_empty_conv)
  then have mx: "py_max sel = Inr (Max (set sel))" by (rule py_max_Cons)
  have sel_pos: "\<forall>i\<in>set sel. 1 \<le> i" using pos by (auto simp: sel_def)
  have sel_le: "\<forall>i\<in>set sel. i \<le> Max (set sel)" by simp
  let ?acc = "acc @ map (\<lambda>i. OFFSET + i) sel"
  have "sorted_wrt (<) (map (\<lambda>i. OFFSET + i) sel)"
    using per_year [of year] by (simp add: sel_def sorted_wrt_map)
  moreover have "\<forall>a\<in>set acc. \<forall>b\<in>set (map (\<lambda>i. OFFSET + i) sel). a < b"
    using Cons.prems(3) sel_pos by fastforce
  ultimately have s: "sorted_wrt (<) ?acc"
    using Cons.prems(2) by (simp add: sorted_wrt_append)
  have b: "\<forall>a\<in>set ?acc. a \<le> OFFSET + Max (set sel)"
  proof
    fix a assume "a \<in> set ?acc"
    then consider "a \<in> set acc" | i where "i \<in> set sel" "a = OFFSET + i" by auto
    then show "a \<le> OFFSET + Max (set sel)"
    proof cases
      case 1
      from ne obtain i where i: "i \<in> set sel" by (cases sel) auto
      from i sel_pos have "1 \<le> i" by blast
      moreover from i have "i \<le> Max (set sel)" by simp
      ultimately have "1 \<le> Max (set sel)" by linarith
      with 1 Cons.prems(3) show ?thesis by fastforce
    next
      case 2
      with sel_le show ?thesis by simp
    qed
  qed
  from Cons.prems(1) have ys: "\<forall>y\<in>set years. \<exists>r\<in>set ga. YEAR r = y" by simp
  from Cons.IH [OF ys s b] obtain out where
    out: "build_X ga years (OFFSET + Max (set sel)) ?acc = Inr out" "sorted_wrt (<) out"
      "length out = length ?acc +
         sum_list (map (\<lambda>y. length (filter (\<lambda>r. YEAR r = y) ga)) years)"
    by blast
  have "build_X ga (year # years) OFFSET acc = Inr out"
    using mx out(1) by (simp add: sel_def [symmetric])
  moreover have "length out = length acc +
      sum_list (map (\<lambda>y. length (filter (\<lambda>r. YEAR r = y) ga)) (year # years))"
    using out(3) by (simp add: sel_def)
  ultimately show ?case using out(2) by blast
qed

lemma grid_average_per_year:
  assumes valid: "list_all valid_date (map SETTLEMENT_DATE rows)"
  shows "sorted_wrt (<) (map DOY (filter (\<lambda>r. YEAR r = y) (make_grid_average rows)))"
proof -
  let ?ga = "make_grid_average rows"
  let ?sel = "filter (\<lambda>r. YEAR r = y) ?ga"
  have "sorted_wrt (\<lambda>a b. DATE a < DATE b) ?ga"
    using grid_average_sorted [of rows] by (simp add: sorted_wrt_map)
  then have s: "sorted_wrt (\<lambda>a b. DATE a < DATE b) ?sel"
    by (rule sorted_wrt_filter)
  have "sorted_wrt (\<lambda>a b. DOY a < DOY b) ?sel"
  proof (rule sorted_wrt_mono_rel [OF _ s])
    fix a b
    assume a: "a \<in> set ?sel" and b: "b \<in> set ?sel" and lt: "DATE a < DATE b"
    from a b have ina: "a \<in> set ?ga" and inb: "b \<in> set ?ga"
      and ya: "YEAR a = y" and yb: "YEAR b = y" by simp_all
    from grid_average_row [OF ina] grid_average_row [OF inb] valid
    have "valid_date (DATE a)" "valid_date (DATE b)"
      by (auto simp: list_all_iff)
    moreover from grid_average_row [OF ina] grid_average_row [OF inb] ya yb
    have "dt_year (DATE a) = dt_year (DATE b)" by simp
    ultimately have "dt_dayofyear (DATE a) < dt_dayofyear (DATE b)"
      using lt by (rule dayofyear_strict)
    with grid_average_row [OF ina] grid_average_row [OF inb] show "DOY a < DOY b" by simp
  qed
  then show ?thesis by (simp add: sorted_wrt_map)
qed

lemma pseudo_days_ok:
  assumes valid: "list_all valid_date (map SETTLEMENT_DATE rows)"
  shows "\<exists>days. pseudo_days (make_grid_average rows) = Inr days \<and> sorted_wrt (<) days \<and>
           length days = length (make_grid_average rows)"
proof -
  let ?ga = "make_grid_average rows"
  let ?years = "np_unique (map YEAR ?ga)"
  have years: "\<forall>y\<in>set ?years. \<exists>r\<in>set ?ga. YEAR r = y"
    by (auto simp: np_unique_def)
  have pos: "\<forall>r\<in>set ?ga. 1 \<le> DOY r"
  proof
    fix r assume r: "r \<in> set ?ga"
    from grid_average_row [OF r] valid have "valid_date (DATE r)"
      by (auto simp: list_all_iff)
    then have "1 \<le> dt_dayofyear (DATE r)" by (rule dayofyear_pos)
    with grid_average_row [OF r] show "1 \<le> DOY r" by simp
  qed
  have "\<exists>out. build_X ?ga ?years 0 [] = Inr out \<and> sorted_wrt (<) out \<and>
           length out =
             length ([]::int list) +
             sum_list (map (\<lambda>y. length (filter (\<lambda>r. YEAR r = y) ?ga)) ?years)"
    by (rule build_X_spec [OF years grid_average_per_year [OF valid] pos]) simp_all
  moreover have "sum_list (map (\<lambda>y. length (filter (\<lambda>r. YEAR r = y) ?ga)) ?years) = length ?ga"
    by (rule count_by_key) (simp_all add: np_unique_def)
  ultimately show ?thesis by (simp add: pseudo_days_def)
qed

lemma GridData_init_ok:
  assumes valid: "list_all valid_date (map SETTLEMENT_DATE rows)"
  shows "\<exists>g days. GridData_init rows = Inr g \<and>
           pseudo_days (make_grid_average rows) = Inr days \<and>
           grid g = rows \<and> grid_average g = make_grid_average rows \<and>
           X g = map (\<lambda>i. real_of_int i / 365) days \<and>
           Y g = map (\<lambda>v. v / 1000) (map DEMAND_AVERAGE (make_grid_average rows))"
proof -
  from pseudo_days_ok [OF valid] obtain days where
    "pseudo_days (make_grid_average rows) = Inr days" by blast
  with valid show ?thesis
    by (simp add: GridData_init_def to_datetime_def Let_def)
qed

section \<open>The small dataset, evaluated\<close>

lemma example_rows_valid: "list_all valid_date (map SETTLEMENT_DATE example_rows)"
  by (simp add: example_rows_def valid_date_def days_in_month_def is_leap_def)

lemma example_grid_average: "make_grid_average example_rows =
  [\<lparr>DATE = (2015, 12, 30), DEMAND_AVERAGE = 28000, YEAR = 2015, DOY = 364\<rparr>,
   \<lparr>DATE = (2015, 12, 31), DEMAND_AVERAGE = 30000, YEAR = 2015, DOY = 365\<rparr>,
   \<lparr>DATE = (2016, 1, 1), DEMAND_AVERAGE = 25000, YEAR = 2016, DOY = 1\<rparr>,
   \<lparr>DATE = (2016, 12, 31), DEMAND_AVERAGE = 21000, YEAR = 2016, DOY = 366\<rparr>]"
  by code_simp

lemma example_pseudo_days:
  "pseudo_days (make_grid_average example_rows) = Inr [364, 365, 366, 731]"
  unfolding example_grid_average by (simp add: pseudo_days_def np_unique_def py_max_def)

lemma example_init:
  assumes "GridData_init example_rows = Inr g"
  shows "grid_average g = make_grid_average example_rows \<and>
         X g = [364 / 365, 1, 366 / 365, 731 / 365] \<and> Y g = [28, 30, 25, 21]"
proof -
  from GridData_init_ok [OF example_rows_valid] obtain g' days where
    a: "GridData_init example_rows = Inr g'"
    and b: "pseudo_days (make_grid_average example_rows) = Inr days"
    and c: "grid_average g' = make_grid_average example_rows"
    and d: "X g' = map (\<lambda>i. real_of_int i / 365) days"
    and e: "Y g' = map (\<lambda>v. v / 1000) (map DEMAND_AVERAGE (make_grid_average example_rows))"
    by blast
  from a assms have g: "g' = g" by simp
  from b have days: "days = [364, 365, 366, 731]"
    by (simp only: example_pseudo_days sum.inject)
  have "X g = [364 / 365, 1, 366 / 365, 731 / 365]"
    using d unfolding g days by simp
  moreover have "Y g = [28, 30, 25, 21]"
    using e unfolding g example_grid_average by simp
  ultimately show ?thesis using c g by simp
qed

section \<open>Facts about loading the model\<close>

lemma np_linspace_length: "length (np_linspace a b n) = n"
  by (simp add: np_linspace_def)

lemma np_linspace_nth: "i < n \<Longrightarrow> np_linspace a b n ! i = a + real i * ((b - a) / real (n - 1))"
  by (simp add: np_linspace_def)

lemma load_model_success:
  assumes "load_model ImportOk unpickled fl_arg self = (None, s')"
  shows "\<exists>m mean conf cmean cconf.
           unpickled = Inr m \<and>
           predict m (np_linspace 0 (case fl_arg of None \<Rightarrow> forecast_limit_default | Some f \<Rightarrow> f) 1000) = Inr (mean, conf) \<and>
           predict m (drop 1881 (X self)) = Inr (cmean, cconf) \<and>
           s' = self\<lparr>COVID_CUTOFF := Some 1881,
                     forecast_limit := Some (case fl_arg of None \<Rightarrow> forecast_limit_default | Some f \<Rightarrow> f),
                     model := Some m,
                     X_PREDICT := Some (np_linspace 0 (case fl_arg of None \<Rightarrow> forecast_limit_default | Some f \<Rightarrow> f) 1000),
                     Y_PREDICT_mean := Some mean, Y_PREDICT_conf := Some conf,
                     X_COVID := Some (drop 1881 (X self)), Y_COVID := Some (drop 1881 (Y self)),
                     Y_COVID_PREDICT_mean := Some cmean, Y_COVID_PREDICT_conf := Some cconf\<rparr>"
  using assms
  by (auto simp: load_model_def Let_def split: sum.splits prod.splits)

lemma GridData_init_fresh:
  assumes "GridData_init rows = Inr g"
  shows "COVID_CUTOFF g = None \<and> forecast_limit g = None \<and> model g = None \<and>
         output_dict g = None \<and>
         X_PREDICT g = None \<and> Y_PREDICT_mean g = None \<and> Y_PREDICT_conf g = None \<and>
         X_COVID g = None \<and> Y_COVID g = None \<and>
         Y_COVID_PREDICT_mean g = None \<and> Y_COVID_PREDICT_conf g = None"
proof (cases "to_datetime (map SETTLEMENT_DATE rows)")
  case (Inl e)
  with assms show ?thesis by (simp add: GridData_init_def)
next
  case (Inr ds)
  show ?thesis
  proof (cases "pseudo_days (make_grid_average rows)")
    case (Inl e)
    with Inr assms show ?thesis by (simp add: GridData_init_def Let_def)
  next
    case (Inr days)
    with \<open>to_datetime (map SETTLEMENT_DATE rows) = Inr ds\<close> assms
    have "g = \<lparr>grid = rows, grid_average = make_grid_average rows,
                 X = map (\<lambda>i. real_of_int i / 365) days,
                 Y = map (\<lambda>v. v / 1000) (map DEMAND_AVERAGE (make_grid_average rows)),
                 COVID_CUTOFF = None, forecast_limit = None, model = None,
                 output_dict = None,
                 X_PREDICT = None, Y_PREDICT_mean = None, Y_PREDICT_conf = None,
                 X_COVID = None, Y_COVID = None,
                 Y_COVID_PREDICT_mean = None, Y_COVID_PREDICT_conf = None\<rparr>"
      by (simp add: GridData_init_def Let_def)
    then show ?thesis by simp
  qed
qed

lemma GridData_init_valid:
  assumes "GridData_init rows = Inr g"
  shows "list_all valid_date (map SETTLEMENT_DATE rows)"
proof (rule ccontr)
  assume "\<not> list_all valid_date (map SETTLEMENT_DATE rows)"
  then have "to_datetime (map SETTLEMENT_DATE rows) = Inl ParseError"
    by (simp add: to_datetime_def)
  then have "GridData_init rows = Inl ParseError" by (simp add: GridData_init_def)
  with assms show False by simp
qed

lemma GridData_init_lengths:
  assumes "GridData_init rows = Inr g"
  shows "grid_average g = make_grid_average rows \<and>
         length (X g) = length (grid_average g) \<and> length (Y g) = length (grid_average g)"
proof -
  have valid: "list_all valid_date (map SETTLEMENT_DATE rows)"
    using assms by (rule GridData_init_valid)
  from GridData_init_ok [OF valid] obtain g' days where
    a: "GridData_init rows = Inr g'"
    and b: "pseudo_days (make_grid_average rows) = Inr days"
    and c: "grid_average g' = make_grid_average rows"
    and d: "X g' = map (\<lambda>i. real_of_int i / 365) days"
    and e: "Y g' = map (\<lambda>v. v / 1000) (map DEMAND_AVERAGE (make_grid_average rows))"
    by blast
  from a assms have g: "g' = g" by simp
  from pseudo_days_ok [OF valid] b have "length days = length (make_grid_average rows)"
    by auto
  with c d e show ?thesis unfolding g by simp
qed

lemma example_load:
  "\<exists>s'. load_model ImportOk (Inr example_model) fl_arg g = (None, s')"
  by (simp add: load_model_def example_model_def Let_def)

lemma precomputed_output_keys:
  assumes "predict m (np_linspace 0 limit 1000) = Inr (mean, conf)"
    and "predict m (drop 1881 xs) = Inr (cmean, cconf)"
  shows "dict_get (precomputed_output m limit xs ys) ''X_PREDICT'' =
           Inr (np_linspace 0 limit 1000)"
    and "dict_get (precomputed_output m limit xs ys) ''Y_PREDICT_mean'' = Inr mean"
    and "dict_get (precomputed_output m limit xs ys) ''Y_PREDICT_conf'' = Inr conf"
    and "dict_get (precomputed_output m limit xs ys) ''X_COVID'' = Inr (drop 1881 xs)"
    and "dict_get (precomputed_output m limit xs ys) ''Y_COVID'' = Inr (drop 1881 ys)"
    and "dict_get (precomputed_output m limit xs ys) ''Y_COVID_PREDICT_mean'' = Inr cmean"
    and "dict_get (precomputed_output m limit xs ys) ''Y_COVID_PREDICT_conf'' = Inr cconf"
  using assms by (simp_all add: dict_get_def precomputed_output_def)

lemma example_object_init: "GridData_init example_rows = Inr example_object"
proof -
  from GridData_init_ok [OF example_rows_valid] obtain g where
    g: "GridData_init example_rows = Inr g" and r: "grid g = example_rows" by blast
  from example_init [OF g] have a: "grid_average g = make_grid_average example_rows"
    "X g = [364 / 365, 1, 366 / 365, 731 / 365]" "Y g = [28, 30, 25, 21]" by blast+
  from GridData_init_fresh [OF g] have n: "COVID_CUTOFF g = None" "forecast_limit g = None"
    "model g = None" "output_dict g = None" "X_PREDICT g = None" "Y_PREDICT_mean g = None"
    "Y_PREDICT_conf g = None" "X_COVID g = None" "Y_COVID g = None"
    "Y_COVID_PREDICT_mean g = None" "Y_COVID_PREDICT_conf g = None" by blast+
  have "g = example_object"
    by (rule GridData.equality) (simp_all add: r a n example_object_def)
  with g show ?thesis by simp
qed

section \<open>The long dataset\<close>

lemma example_long_valid: "list_all valid_date (map SETTLEMENT_DATE long_rows)"
proof -
  have v: "valid_date (2015 + int (k div 336), 1 + (k div 28) mod 12, 1 + k mod 28)"
    if "k < 1883" for k
  proof -
    have d: "1 + k mod 28 \<le> days_in_month y m" for y m
    proof -
      have "28 \<le> days_in_month y m" by (simp add: days_in_month_def)
      moreover have "k mod 28 < 28" by simp
      ultimately show ?thesis by linarith
    qed
    have "(k div 28) mod 12 < 12" by simp
    then have m: "1 + (k div 28) mod 12 \<le> 12" by linarith
    from that have "int (k div 336) \<le> 5" by simp
    with d m show ?thesis by (simp add: valid_date_def)
  qed
  have "set (map SETTLEMENT_DATE long_rows) =
          (\<lambda>k::nat. (2015 + int (k div 336), 1 + (k div 28) mod 12, 1 + k mod 28)) ` {0..<1883}"
    by (simp add: long_rows_def comp_def)
  with v show ?thesis unfolding list_all_iff by auto
qed

lemma long_rows_inj:
  fixes a b :: nat
  assumes "a div 336 = b div 336" "(a div 28) mod 12 = (b div 28) mod 12" "a mod 28 = b mod 28"
  shows "a = b"
proof -
  have qa: "a div 336 = (a div 28) div 12" using div_mult2_eq [of a 28 12] by simp
  have qb: "b div 336 = (b div 28) div 12" using div_mult2_eq [of b 28 12] by simp
  have "a div 28 = 12 * ((a div 28) div 12) + (a div 28) mod 12" by simp
  also have "\<dots> = 12 * ((b div 28) div 12) + (b div 28) mod 12"
    using assms(1,2) by (simp only: qa qb)
  also have "\<dots> = b div 28" by simp
  finally have d: "a div 28 = b div 28" .
  have "a = 28 * (a div 28) + a mod 28" by simp
  also have "\<dots> = 28 * (b div 28) + b mod 28" by (simp only: d assms(3))
  also have "\<dots> = b" by simp
  finally show ?thesis .
qed

lemma long_rows_dates:
  "card (set (map SETTLEMENT_DATE long_rows)) = 1883"
proof -
  let ?f = "\<lambda>k::nat. (2015 + int (k div 336), 1 + (k div 28) mod 12, 1 + k mod 28)"
  have "inj_on ?f {0..<1883}"
  proof (rule inj_onI)
    fix a b :: nat
    assume "?f a = ?f b"
    then have "a div 336 = b div 336" "(a div 28) mod 12 = (b div 28) mod 12"
      "a mod 28 = b mod 28" by simp_all
    then show "a = b" by (rule long_rows_inj)
  qed
  then have "card (?f ` {0..<1883}) = card {0..<1883::nat}" by (rule card_image)
  moreover have "set (map SETTLEMENT_DATE long_rows) = ?f ` {0..<1883}"
    by (simp add: long_rows_def comp_def)
  ultimately show ?thesis by simp
qed

section \<open>Facts about the plots\<close>

lemma np_unique_length: "length (np_unique xs) = card (set xs)"
  by (simp add: np_unique_def length_remdups_card_conv)

lemma colors_length: "length colors = 6"
  by (simp add: colors_def)

lemma demand_lines_overflow:
  "i \<le> 6 \<Longrightarrow> 6 < i + length years \<Longrightarrow> demand_lines ga years i acc = Inl IndexError"
proof (induction years arbitrary: i acc)
  case Nil
  then show ?case by simp
next
  case (Cons year years)
  show ?case
  proof (cases "i < 6")
    case True
    with Cons.prems have "Suc i \<le> 6" "6 < Suc i + length years" by simp_all
    from Cons.IH [OF this] True show ?thesis
      by (simp add: list_get_def colors_length Let_def)
  next
    case False
    then show ?thesis by (simp add: list_get_def colors_length Let_def)
  qed
qed

lemma demand_lines_in_bounds:
  "i + length years \<le> 6 \<Longrightarrow>
     \<exists>gs. demand_lines ga years i acc = Inr (acc @ gs) \<and> length gs = length years \<and>
          map (g_color \<circ> glyph_style_of) gs = map Some (take (length years) (drop i colors))"
proof (induction years arbitrary: i acc)
  case Nil
  then show ?case by simp
next
  case (Cons year years)
  then have i: "i < 6" and n: "Suc i + length years \<le> 6" by simp_all
  define g where "g = Line (Ints (map DOY (filter (\<lambda>r. YEAR r = year) ga)))
                        (map (Finite \<circ> DEMAND_AVERAGE) (filter (\<lambda>r. YEAR r = year) ga))
                        (no_style\<lparr>g_line_width := Some 2,
                                  g_alpha := Some (0.4 + 0.1 * real i),
                                  g_legend_label := Some (LegendYear year),
                                  g_color := Some (colors ! i)\<rparr>)"
  from Cons.IH [OF n, of "acc @ [g]"] obtain gs where
    gs: "demand_lines ga years (Suc i) (acc @ [g]) = Inr ((acc @ [g]) @ gs)"
      "length gs = length years"
      "map (g_color \<circ> glyph_style_of) gs = map Some (take (length years) (drop (Suc i) colors))"
    by blast
  have step: "demand_lines ga (year # years) i acc = demand_lines ga years (Suc i) (acc @ [g])"
    using i by (simp add: list_get_def colors_length Let_def g_def)
  have d: "drop i colors = colors ! i # drop (Suc i) colors"
    using i by (simp add: Cons_nth_drop_Suc colors_length)
  have c: "map (g_color \<circ> glyph_style_of) (g # gs) =
          map Some (take (length (year # years)) (drop i colors))"
    by (simp add: gs(3) d g_def)
  have r: "demand_lines ga (year # years) i acc = Inr (acc @ (g # gs))"
    by (simp only: step gs(1)) simp
  have l: "length (g # gs) = length (year # years)"
    by (simp add: gs(2))
  from r l c show ?case by blast
qed

lemma seven_year_rows_valid: "list_all valid_date (map SETTLEMENT_DATE seven_year_rows)"
  by (simp add: seven_year_rows_def valid_date_def days_in_month_def is_leap_def)

lemma seven_year_rows_years:
  "map YEAR (make_grid_average seven_year_rows) = [2015, 2016, 2017, 2018, 2019, 2020, 2021]"
  by code_simp

lemma np_elementwise_same_length:
  "length xs = length ys \<Longrightarrow> np_elementwise f xs ys = Inr (map2 f xs ys)"
  by (simp add: np_elementwise_def)

lemma is_finite_float_div: "is_finite (float_div a b) = (b \<noteq> 0)"
  by (simp add: float_div_def is_finite_def)

lemma float_div_nonzero: "b \<noteq> 0 \<Longrightarrow> float_div a b = Finite (a / b)"
  by (simp add: float_div_def)

lemma mean_line_Inr:
  assumes "mean_line self = Inr g"
  shows "\<exists>cutoff yc cmean ratio.
           COVID_CUTOFF self = Some cutoff \<and> Y_COVID self = Some yc \<and>
           Y_COVID_PREDICT_mean self = Some cmean \<and> np_divide yc cmean = Inr ratio \<and>
           g = Line (Dates (drop cutoff (map DATE (grid_average self)))) ratio
                 (no_style\<lparr>g_legend_label := Some (LegendText ''Mean'')\<rparr>)"
  using assms
  by (auto simp: mean_line_def getattr_def split: option.splits sum.splits)

lemma reference_line_Inr:
  assumes "reference_line self = Inr g"
  shows "\<exists>cutoff. COVID_CUTOFF self = Some cutoff \<and>
           g = Line (Dates (drop cutoff (map DATE (grid_average self))))
                 (replicate (length (grid_average self) - cutoff) (Finite 1))
                 (no_style\<lparr>g_line_dash := Some ''dashed'', g_color := Some ''black''\<rparr>)"
  using assms
  by (auto simp: reference_line_def getattr_def split: option.splits)

lemma confidence_area_Inr:
  assumes "confidence_area self = Inr g"
  shows "\<exists>cutoff yc cmean cconf y1 y2.
           COVID_CUTOFF self = Some cutoff \<and> Y_COVID self = Some yc \<and>
           Y_COVID_PREDICT_mean self = Some cmean \<and> Y_COVID_PREDICT_conf self = Some cconf \<and>
           ratio_to (+) yc cmean cconf = Inr y1 \<and> ratio_to (-) yc cmean cconf = Inr y2 \<and>
           g = VArea (Dates (drop cutoff (map DATE (grid_average self)))) y1 y2
                 (no_style\<lparr>g_alpha := Some 0.2,
                           g_legend_label := Some (LegendText ''Confidence'')\<rparr>)"
  using assms
  by (auto simp: confidence_area_def getattr_def split: option.splits sum.splits)

lemma plot_discrepancy_Inr:
  assumes "plot_demand_discrepancy_bkh plot_confidence self = Inr fig"
  shows "\<exists>area ref mean.
           (if plot_confidence then (\<exists>g. confidence_area self = Inr g \<and> area = [g])
            else area = []) \<and>
           reference_line self = Inr ref \<and> mean_line self = Inr mean \<and>
           glyphs fig = area @ [ref, mean]"
  using assms
  by (auto simp: plot_demand_discrepancy_bkh_def split: if_splits sum.splits)

section \<open>The long dataset, loaded and plotted\<close>

lemma np_mean_const:
  assumes "xs \<noteq> []" "\<forall>x\<in>set xs. x = c"
  shows "np_mean xs = c"
proof -
  from assms(2) have "xs = replicate (length xs) c"
    by (simp add: replicate_length_same)
  then have "sum_list xs = real (length xs) * c"
    by (metis sum_list_replicate)
  with assms(1) show ?thesis by (simp add: np_mean_def)
qed

lemma long_rows_ND: "\<forall>c\<in>set long_rows. ND c = 30000"
proof -
  have "set long_rows =
          (\<lambda>k. \<lparr>SETTLEMENT_DATE = (2015 + int (k div 336), 1 + (k div 28) mod 12, 1 + k mod 28),
                 ND = 30000\<rparr>) ` {0..<1883}"
    by (simp add: long_rows_def)
  then show ?thesis by auto
qed

lemma long_rows_init:
  assumes "GridData_init long_rows = Inr g"
  shows "length (grid_average g) = 1883 \<and> length (X g) = 1883 \<and> Y g = replicate 1883 30"
proof -
  let ?ga = "make_grid_average long_rows"
  from GridData_init_lengths [OF assms]
  have ga: "grid_average g = ?ga" and lx: "length (X g) = length (grid_average g)" by simp_all
  from grid_average_length [of long_rows] long_rows_dates
  have n: "length ?ga = 1883" by simp
  from GridData_init_ok [OF example_long_valid] assms
  have y: "Y g = map (\<lambda>v. v / 1000) (map DEMAND_AVERAGE ?ga)" by auto
  have avg: "DEMAND_AVERAGE r = 30000" if r: "r \<in> set ?ga" for r
  proof -
    let ?sel = "filter (\<lambda>c. SETTLEMENT_DATE c = DATE r) long_rows"
    from grid_average_row [OF r]
    have d: "DATE r \<in> set (map SETTLEMENT_DATE long_rows)"
      and m: "DEMAND_AVERAGE r = np_mean (map ND ?sel)" by simp_all
    from d have "?sel \<noteq> []" by (auto simp: filter_empty_conv)
    then have "map ND ?sel \<noteq> []" by simp
    moreover have "\<forall>x\<in>set (map ND ?sel). x = 30000" using long_rows_ND by auto
    ultimately have "np_mean (map ND ?sel) = 30000" by (rule np_mean_const)
    with m show ?thesis by simp
  qed
  have "map (\<lambda>v. v / 1000) (map DEMAND_AVERAGE ?ga) = map (\<lambda>r. 30) ?ga"
    using avg by simp
  also have "\<dots> = replicate 1883 30" by (simp only: map_replicate_const n)
  finally show ?thesis using y ga lx n by simp
qed

lemma long_rows_loaded:
  assumes g: "GridData_init long_rows = Inr g"
    and s: "load_model ImportOk (Inr \<lparr>predict = (\<lambda>xs. Inr (map (\<lambda>x. a) xs, map (\<lambda>x. b) xs))\<rparr>)
              fl_arg g = (None, s)"
  shows "COVID_CUTOFF s = Some 1881 \<and> grid_average s = grid_average g \<and>
         length (drop 1881 (map DATE (grid_average s))) = 2 \<and>
         Y_COVID s = Some [30, 30] \<and> Y_COVID_PREDICT_mean s = Some [a, a] \<and>
         Y_COVID_PREDICT_conf s = Some [b, b]"
proof -
  from long_rows_init [OF g]
  have n: "length (grid_average g) = 1883" and lx: "length (X g) = 1883"
    and y: "Y g = replicate 1883 30" by simp_all
  have two: "replicate 2 v = [v, v]" for v :: real by (simp add: numeral_2_eq_2)
  have dy: "drop 1881 (Y g) = [30, 30]" by (simp add: y two)
  have "length (drop 1881 (X g)) = 2" by (simp add: lx)
  then have cx: "map (\<lambda>x. v) (drop 1881 (X g)) = [v, v]" for v :: real
    by (simp only: map_replicate_const two)
  from load_model_success [OF s] obtain cmean cconf where
    p: "(Inr (map (\<lambda>x. a) (drop 1881 (X g)), map (\<lambda>x. b) (drop 1881 (X g)))
          :: error + real list \<times> real list) = Inr (cmean, cconf)"
    and c: "COVID_CUTOFF s = Some 1881" "grid_average s = grid_average g"
      "Y_COVID s = Some (drop 1881 (Y g))"
      "Y_COVID_PREDICT_mean s = Some cmean" "Y_COVID_PREDICT_conf s = Some cconf"
    by auto
  from p have "cmean = [a, a]" "cconf = [b, b]" by (simp_all add: cx)
  with c dy n show ?thesis by simp
qed

lemma np_divide_same_length:
  assumes "length xs = length ys" "np_divide xs ys = Inr r"
  shows "length r = length xs \<and>
         (\<forall>i<length xs. r ! i = float_div (xs ! i) (ys ! i))"
proof -
  from assms have "r = map2 float_div xs ys"
    by (simp add: np_divide_def np_elementwise_same_length)
  with assms(1) show ?thesis by simp
qed

lemma ratio_to_same_length:
  assumes "length a = length b" "length num = length a" "ratio_to f num a b = Inr r"
  shows "length r = length num \<and>
         (\<forall>i<length num. r ! i = float_div (num ! i) (f (a ! i) (b ! i)))"
proof -
  have e: "np_elementwise f a b = Inr (map2 f a b)"
    using assms(1) by (rule np_elementwise_same_length)
  have l: "length num = length (map2 f a b)" using assms(1,2) by simp
  from assms(3) have "np_divide num (map2 f a b) = Inr r"
    by (simp add: ratio_to_def e)
  from np_divide_same_length [OF l this] assms(1,2) show ?thesis by simp
qed

lemma long_rows_plot:
  assumes g: "GridData_init long_rows = Inr g"
    and s: "load_model ImportOk (Inr \<lparr>predict = (\<lambda>xs. Inr (map (\<lambda>x. a) xs, map (\<lambda>x. b) xs))\<rparr>)
              fl_arg g = (None, s)"
  shows "\<exists>ds. ds = drop 1881 (map DATE (grid_average g)) \<and> length ds = 2 \<and>
           plot_demand_discrepancy_bkh True s =
             Inr \<lparr>glyphs =
                    [VArea (Dates ds) [float_div 30 (a + b), float_div 30 (a + b)]
                       [float_div 30 (a - b), float_div 30 (a - b)]
                       (no_style\<lparr>g_alpha := Some 0.2,
                                 g_legend_label := Some (LegendText ''Confidence'')\<rparr>),
                     Line (Dates ds) [Finite 1, Finite 1]
                       (no_style\<lparr>g_line_dash := Some ''dashed'', g_color := Some ''black''\<rparr>),
                     Line (Dates ds) [float_div 30 a, float_div 30 a]
                       (no_style\<lparr>g_legend_label := Some (LegendText ''Mean'')\<rparr>)],
                  x_axis_label = ''Date'',
                  y_axis_label = ''Net Demand (True) / Net Demand (Expected)''\<rparr>"
proof -
  from long_rows_loaded [OF g s]
  have c: "COVID_CUTOFF s = Some 1881" and ga: "grid_average s = grid_average g"
    and n: "length (drop 1881 (map DATE (grid_average s))) = 2"
    and y: "Y_COVID s = Some [30, 30]" and m: "Y_COVID_PREDICT_mean s = Some [a, a]"
    and f: "Y_COVID_PREDICT_conf s = Some [b, b]" by blast+
  have two: "replicate 2 v = [v, v]" for v :: npfloat by (simp add: numeral_2_eq_2)
  have area: "confidence_area s =
      Inr (VArea (Dates (drop 1881 (map DATE (grid_average s))))
             [float_div 30 (a + b), float_div 30 (a + b)]
             [float_div 30 (a - b), float_div 30 (a - b)]
             (no_style\<lparr>g_alpha := Some 0.2,
                       g_legend_label := Some (LegendText ''Confidence'')\<rparr>))"
    by (simp add: confidence_area_def getattr_def c y m f ratio_to_def np_divide_def
          np_elementwise_def)
  have ref: "reference_line s =
      Inr (Line (Dates (drop 1881 (map DATE (grid_average s)))) [Finite 1, Finite 1]
             (no_style\<lparr>g_line_dash := Some ''dashed'', g_color := Some ''black''\<rparr>))"
  proof -
    from n have n': "length (grid_average s) - 1881 = 2" by simp
    show ?thesis by (simp add: reference_line_def getattr_def c n' two)
  qed
  have mean: "mean_line s =
      Inr (Line (Dates (drop 1881 (map DATE (grid_average s)))) [float_div 30 a, float_div 30 a]
             (no_style\<lparr>g_legend_label := Some (LegendText ''Mean'')\<rparr>))"
    by (simp add: mean_line_def getattr_def c y m np_divide_def np_elementwise_def)
  show ?thesis
    using n by (simp add: plot_demand_discrepancy_bkh_def area ref mean ga)
qed

section \<open>Claims about the constructor\<close>

text \<open>
  Claim C2. When every \<open>SETTLEMENT_DATE\<close> is a valid date the constructor returns an
  object, and its time axis \<open>X\<close> is strictly increasing over the whole dataset: every
  element is greater than all earlier ones, in particular than its predecessor, also where
  the year changes.
\<close>

theorem time_axis_strictly_increasing:
  assumes "list_all valid_date (map SETTLEMENT_DATE rows)"
  shows "\<exists>g. GridData_init rows = Inr g \<and> sorted_wrt (<) (X g) \<and>
           (\<forall>i. Suc i < length (X g) \<longrightarrow> X g ! i < X g ! Suc i)"
proof -
  from GridData_init_ok [OF assms] pseudo_days_ok [OF assms]
  obtain g days where g: "GridData_init rows = Inr g"
    and x: "X g = map (\<lambda>i. real_of_int i / 365) days"
    and s: "sorted_wrt (<) days"
    by auto
  have "sorted_wrt (\<lambda>a b. real_of_int a / 365 < real_of_int b / 365) days"
    by (rule sorted_wrt_mono_rel [OF _ s]) (simp add: divide_strict_right_mono)
  then have sx: "sorted_wrt (<) (X g)" by (simp add: x sorted_wrt_map)
  then have "\<forall>i. Suc i < length (X g) \<longrightarrow> X g ! i < X g ! Suc i"
    by (simp add: sorted_wrt_iff_nth_less)
  with g sx show ?thesis by blast
qed

theorem time_axis_strictly_increasing_witness:
  "list_all valid_date (map SETTLEMENT_DATE example_rows) \<and>
   (\<exists>g. GridData_init example_rows = Inr g \<and>
        X g = [364 / 365, 1, 366 / 365, 731 / 365] \<and> sorted_wrt (<) (X g))"
  using time_axis_strictly_increasing [OF example_rows_valid] example_rows_valid example_init
  by blast

text \<open>
  Claim C5. For a dataset of valid dates the table \<open>grid_average\<close> has as many rows as
  there are distinct dates, holds exactly those dates in strictly ascending order, and each
  row's \<open>DEMAND_AVERAGE\<close> is the sum of the \<open>ND\<close> readings of its date divided by their
  number.
\<close>

theorem daily_aggregate_table:
  assumes "list_all valid_date (map SETTLEMENT_DATE rows)"
  shows "\<exists>g. GridData_init rows = Inr g \<and>
           length (grid_average g) = card (set (map SETTLEMENT_DATE rows)) \<and>
           set (map DATE (grid_average g)) = set (map SETTLEMENT_DATE rows) \<and>
           sorted_wrt (<) (map DATE (grid_average g)) \<and>
           list_all (\<lambda>r. DEMAND_AVERAGE r =
                        sum_list (map ND (filter (\<lambda>c. SETTLEMENT_DATE c = DATE r) rows)) /
                        real (length (filter (\<lambda>c. SETTLEMENT_DATE c = DATE r) rows)))
             (grid_average g)"
proof -
  from GridData_init_ok [OF assms]
  obtain g where g: "GridData_init rows = Inr g"
    and ga: "grid_average g = make_grid_average rows"
    by auto
  have "list_all (\<lambda>r. DEMAND_AVERAGE r =
                        sum_list (map ND (filter (\<lambda>c. SETTLEMENT_DATE c = DATE r) rows)) /
                        real (length (filter (\<lambda>c. SETTLEMENT_DATE c = DATE r) rows)))
             (make_grid_average rows)"
    unfolding list_all_iff using grid_average_row [of _ rows] by (simp add: np_mean_def)
  moreover have "set (map DATE (make_grid_average rows)) = set (map SETTLEMENT_DATE rows)"
    by (simp only: grid_average_DATE set_sort set_remdups)
  ultimately show ?thesis
    using g ga grid_average_length [of rows] grid_average_sorted [of rows] by auto
qed

theorem daily_aggregate_table_witness:
  "list_all valid_date (map SETTLEMENT_DATE example_rows) \<and>
   card (set (map SETTLEMENT_DATE example_rows)) = 4 \<and>
   (\<exists>g. GridData_init example_rows = Inr g \<and>
        length (grid_average g) = card (set (map SETTLEMENT_DATE example_rows)) \<and>
        map DATE (grid_average g) = [(2015, 12, 30), (2015, 12, 31), (2016, 1, 1), (2016, 12, 31)] \<and>
        map DEMAND_AVERAGE (grid_average g) = [28000, 30000, 25000, 21000])"
proof -
  from daily_aggregate_table [OF example_rows_valid]
  obtain g where g: "GridData_init example_rows = Inr g"
    and n: "length (grid_average g) = card (set (map SETTLEMENT_DATE example_rows))"
    by blast
  from example_init [OF g] have ga: "grid_average g = make_grid_average example_rows" by simp
  have "card (set (map SETTLEMENT_DATE example_rows)) = 4"
    using n by (simp add: ga example_grid_average)
  with g n example_rows_valid show ?thesis
    by (auto simp: ga example_grid_average)
qed

text \<open>
  Claim C6. Whenever the constructor returns an object, every entry of \<open>X\<close> is the
  pseudo-day index at its position divided by 365 and every entry of \<open>Y\<close> is the mean
  demand of its row divided by 1000. On the small dataset a mean demand of 30000 gives
  \<open>Y = 30\<close>, and day 366 of the second year, after a first year whose largest day is 365,
  gets pseudo-day 731 and \<open>X = 731 / 365\<close>, within 0.0001 of 2.0027.
\<close>

theorem unit_conversions:
  "(GridData_init rows = Inr g \<longrightarrow>
      (\<exists>days. pseudo_days (grid_average g) = Inr days \<and>
              length days = length (X g) \<and>
              (\<forall>i < length (X g). X g ! i = real_of_int (days ! i) / 365)) \<and>
      length (Y g) = length (grid_average g) \<and>
      (\<forall>i < length (Y g). Y g ! i = DEMAND_AVERAGE (grid_average g ! i) / 1000)) \<and>
   (\<exists>e. GridData_init example_rows = Inr e \<and>
        DEMAND_AVERAGE (grid_average e ! 1) = 30000 \<and> Y e ! 1 = 30 \<and>
        YEAR (grid_average e ! 1) = 2015 \<and> DOY (grid_average e ! 1) = 365 \<and>
        YEAR (grid_average e ! 3) = 2016 \<and> DOY (grid_average e ! 3) = 366 \<and>
        pseudo_days (grid_average e) = Inr [364, 365, 366, 731] \<and>
        X e ! 3 = 731 / 365 \<and> \<bar>X e ! 3 - 2.0027\<bar> < 0.0001)"
proof
  show "GridData_init rows = Inr g \<longrightarrow>
      (\<exists>days. pseudo_days (grid_average g) = Inr days \<and>
              length days = length (X g) \<and>
              (\<forall>i < length (X g). X g ! i = real_of_int (days ! i) / 365)) \<and>
      length (Y g) = length (grid_average g) \<and>
      (\<forall>i < length (Y g). Y g ! i = DEMAND_AVERAGE (grid_average g ! i) / 1000)"
    by (auto simp: GridData_init_def Let_def split: sum.splits)
next
  from GridData_init_ok [OF example_rows_valid]
  obtain e where e: "GridData_init example_rows = Inr e" by blast
  from example_init [OF e]
  have ga: "grid_average e = make_grid_average example_rows"
    and x: "X e = [364 / 365, 1, 366 / 365, 731 / 365]" and y: "Y e = [28, 30, 25, 21]"
    by blast+
  have "DEMAND_AVERAGE (grid_average e ! 1) = 30000 \<and> Y e ! 1 = 30 \<and>
        YEAR (grid_average e ! 1) = 2015 \<and> DOY (grid_average e ! 1) = 365 \<and>
        YEAR (grid_average e ! 3) = 2016 \<and> DOY (grid_average e ! 3) = 366 \<and>
        pseudo_days (grid_average e) = Inr [364, 365, 366, 731] \<and>
        X e ! 3 = 731 / 365 \<and> \<bar>X e ! 3 - 2.0027\<bar> < 0.0001"
    unfolding x y ga example_pseudo_days unfolding example_grid_average
    by (simp add: numeral_3_eq_3)
  with e
  show "\<exists>e. GridData_init example_rows = Inr e \<and>
        DEMAND_AVERAGE (grid_average e ! 1) = 30000 \<and> Y e ! 1 = 30 \<and>
        YEAR (grid_average e ! 1) = 2015 \<and> DOY (grid_average e ! 1) = 365 \<and>
        YEAR (grid_average e ! 3) = 2016 \<and> DOY (grid_average e ! 3) = 366 \<and>
        pseudo_days (grid_average e) = Inr [364, 365, 366, 731] \<and>
        X e ! 3 = 731 / 365 \<and> \<bar>X e ! 3 - 2.0027\<bar> < 0.0001"
    by blast
qed

theorem unit_conversions_witness:
  "\<exists>e. GridData_init example_rows = Inr e \<and>
       X e = [364 / 365, 1, 366 / 365, 731 / 365] \<and> Y e = [28, 30, 25, 21] \<and>
       (\<exists>days. pseudo_days (grid_average e) = Inr days \<and>
               length days = length (X e) \<and>
               X e ! 3 = real_of_int (days ! 3) / 365) \<and>
       Y e ! 1 = DEMAND_AVERAGE (grid_average e ! 1) / 1000"
proof -
  from GridData_init_ok [OF example_rows_valid]
  obtain e where e: "GridData_init example_rows = Inr e" by blast
  from example_init [OF e]
  have x: "X e = [364 / 365, 1, 366 / 365, 731 / 365]" and y: "Y e = [28, 30, 25, 21]"
    by blast+
  from unit_conversions [of example_rows e] e
  obtain days where d: "pseudo_days (grid_average e) = Inr days" "length days = length (X e)"
    and xi: "\<forall>i < length (X e). X e ! i = real_of_int (days ! i) / 365"
    and yi: "\<forall>i < length (Y e). Y e ! i = DEMAND_AVERAGE (grid_average e ! i) / 1000"
    by blast
  have "(3::nat) < length (X e)" "(1::nat) < length (Y e)" by (simp_all add: x y)
  with xi yi have "X e ! 3 = real_of_int (days ! 3) / 365"
    "Y e ! 1 = DEMAND_AVERAGE (grid_average e ! 1) / 1000" by blast+
  with e x y d show ?thesis by blast
qed

section \<open>Claims about loading the model\<close>

text \<open>
  Claim C4, amended. When \<open>import GPy\<close> raises \<open>ModuleNotFoundError\<close>, \<open>load_model\<close>
  raises nothing and returns the object exactly as it was: on an object fresh from the
  constructor, \<open>COVID_CUTOFF\<close>, \<open>forecast_limit\<close>, \<open>model\<close> and the prediction attributes
  are still absent after the call. Any other exception of the import is raised by
  \<open>load_model\<close>, which leaves the object as it was all the same.
\<close>

theorem load_model_module_not_found:
  "load_model (ImportRaises ModuleNotFoundError) unpickled fl_arg self = (None, self) \<and>
   (e \<noteq> ModuleNotFoundError \<longrightarrow>
      load_model (ImportRaises e) unpickled fl_arg self = (Some e, self)) \<and>
   (GridData_init rows = Inr g \<longrightarrow>
      (\<exists>g'. load_model (ImportRaises ModuleNotFoundError) unpickled fl_arg g = (None, g') \<and>
         g' = g \<and>
         COVID_CUTOFF g' = None \<and> forecast_limit g' = None \<and> model g' = None \<and>
         X_PREDICT g' = None \<and> Y_PREDICT_mean g' = None \<and> Y_PREDICT_conf g' = None \<and>
         X_COVID g' = None \<and> Y_COVID g' = None \<and>
         Y_COVID_PREDICT_mean g' = None \<and> Y_COVID_PREDICT_conf g' = None))"
proof -
  have a: "load_model (ImportRaises ModuleNotFoundError) u f s = (None, s)" for u f s
    by (simp add: load_model_def)
  have b: "load_model (ImportRaises e) u f s = (Some e, s)" if "e \<noteq> ModuleNotFoundError"
    for u f s
    using that by (simp add: load_model_def)
  show ?thesis using a b GridData_init_fresh [of rows g] by simp
qed

theorem load_model_module_not_found_witness:
  "GridData_init example_rows = Inr example_object \<and>
   ImportError \<noteq> ModuleNotFoundError \<and>
   load_model (ImportRaises ModuleNotFoundError) (Inr example_model) None example_object =
     (None, example_object) \<and>
   load_model (ImportRaises ImportError) (Inr example_model) None example_object =
     (Some ImportError, example_object) \<and>
   COVID_CUTOFF example_object = None \<and> forecast_limit example_object = None \<and>
   model example_object = None \<and> X_PREDICT example_object = None \<and>
   Y_PREDICT_mean example_object = None \<and> Y_PREDICT_conf example_object = None \<and>
   X_COVID example_object = None \<and> Y_COVID example_object = None \<and>
   Y_COVID_PREDICT_mean example_object = None \<and> Y_COVID_PREDICT_conf example_object = None"
  using load_model_module_not_found
          [of "Inr example_model" None example_object ImportError example_rows example_object]
        example_object_init
  by simp

text \<open>
  The claim as first stated, for every failure of the import, does not hold: when the
  import raises \<open>ImportError\<close>, \<open>load_model\<close> raises it too.
\<close>

theorem load_model_import_error_raised:
  "GridData_init example_rows = Inr example_object \<and>
   load_model (ImportRaises ImportError) (Inr example_model) None example_object =
     (Some ImportError, example_object) \<and>
   fst (load_model (ImportRaises ImportError) (Inr example_model) None example_object) \<noteq> None"
  using example_object_init by (simp add: load_model_def)

text \<open>
  Claim C7. A \<open>load_model\<close> call that raises nothing leaves \<open>forecast_limit\<close> at the
  value passed, 7 when none is passed, and \<open>X_PREDICT\<close> at 1000 points that start at 0,
  end at the forecast limit and are evenly spaced: the \<open>i\<close>-th is \<open>i\<close> times a 999th of
  the limit.
\<close>

theorem X_PREDICT_grid:
  assumes "load_model ImportOk unpickled fl_arg self = (None, s')"
  shows "forecast_limit_default = 7 \<and>
         (\<exists>f xp. f = (case fl_arg of None \<Rightarrow> 7 | Some v \<Rightarrow> v) \<and>
            forecast_limit s' = Some f \<and> X_PREDICT s' = Some xp \<and> length xp = 1000 \<and>
            xp ! 0 = 0 \<and> xp ! 999 = f \<and>
            (\<forall>i<1000. xp ! i = real i * (f / 999)) \<and>
            (\<forall>i<999. xp ! Suc i - xp ! i = f / 999))"
proof -
  define f where "f = (case fl_arg of None \<Rightarrow> forecast_limit_default | Some v \<Rightarrow> v)"
  have f7: "f = (case fl_arg of None \<Rightarrow> 7 | Some v \<Rightarrow> v)"
    by (cases fl_arg) (simp_all add: f_def forecast_limit_default_def)
  define xp where "xp = np_linspace 0 f 1000"
  from load_model_success [OF assms]
  have fl: "forecast_limit s' = Some f" and x: "X_PREDICT s' = Some xp"
    unfolding f_def xp_def by auto
  have nth: "xp ! i = real i * (f / 999)" if "i < 1000" for i
    using that by (simp add: xp_def np_linspace_nth)
  have len: "length xp = 1000" by (simp add: xp_def np_linspace_length)
  have step: "xp ! Suc i - xp ! i = f / 999" if "i < 999" for i
  proof -
    from that have "Suc i < 1000" "i < 1000" by simp_all
    then show ?thesis by (simp add: nth algebra_simps)
  qed
  have z: "xp ! 0 = 0" using nth [of 0] by simp
  have l: "xp ! 999 = f" using nth [of 999] by simp
  have a: "\<forall>i<1000. xp ! i = real i * (f / 999)" using nth by blast
  have b: "\<forall>i<999. xp ! Suc i - xp ! i = f / 999" using step by blast
  have d: "forecast_limit_default = 7" by (simp add: forecast_limit_default_def)
  from d f7 fl x len z l a b show ?thesis by blast
qed

theorem X_PREDICT_grid_witness:
  "\<exists>g s' xp. GridData_init example_rows = Inr g \<and>
       load_model ImportOk (Inr example_model) None g = (None, s') \<and>
       forecast_limit s' = Some 7 \<and> X_PREDICT s' = Some xp \<and> length xp = 1000 \<and>
       xp ! 0 = 0 \<and> xp ! 999 = 7"
proof -
  from GridData_init_ok [OF example_rows_valid]
  obtain g where g: "GridData_init example_rows = Inr g" by blast
  from example_load obtain s' where
    s': "load_model ImportOk (Inr example_model) None g = (None, s')" by blast
  from X_PREDICT_grid [OF s'] g s' show ?thesis by auto
qed

text \<open>
  Claim C3. After a \<open>load_model\<close> call that raises nothing, on an object the constructor
  built, \<open>X_COVID\<close> and \<open>Y_COVID\<close> are the rows of \<open>X\<close> and \<open>Y\<close> from index 1881 on.
  They have the same length: the number of rows of \<open>grid_average\<close> minus 1881 when there
  are at least 1881 rows, and zero when there are at most 1881.
\<close>

theorem post_cutoff_slices:
  assumes "GridData_init rows = Inr g"
    and "load_model ImportOk unpickled fl_arg g = (None, s')"
  shows "\<exists>xc yc. COVID_CUTOFF s' = Some 1881 \<and> grid_average s' = grid_average g \<and>
           X_COVID s' = Some xc \<and> Y_COVID s' = Some yc \<and>
           xc = drop 1881 (X g) \<and> yc = drop 1881 (Y g) \<and>
           length xc = length yc \<and>
           (1881 \<le> length (grid_average s') \<longrightarrow>
              int (length xc) = int (length (grid_average s')) - 1881) \<and>
           (length (grid_average s') \<le> 1881 \<longrightarrow> xc = [] \<and> yc = [])"
proof -
  from GridData_init_lengths [OF assms(1)]
  have lx: "length (X g) = length (grid_average g)"
    and ly: "length (Y g) = length (grid_average g)" by simp_all
  from load_model_success [OF assms(2)]
  have "COVID_CUTOFF s' = Some 1881" "grid_average s' = grid_average g"
    "X_COVID s' = Some (drop 1881 (X g))" "Y_COVID s' = Some (drop 1881 (Y g))"
    by auto
  with lx ly show ?thesis by auto
qed

theorem post_cutoff_slices_witness:
  "(\<exists>g s' xc yc. GridData_init long_rows = Inr g \<and>
       load_model ImportOk (Inr example_model) None g = (None, s') \<and>
       length (grid_average s') = 1883 \<and>
       X_COVID s' = Some xc \<and> Y_COVID s' = Some yc \<and> length xc = 2 \<and> length yc = 2) \<and>
   (\<exists>g s'. GridData_init example_rows = Inr g \<and>
       load_model ImportOk (Inr example_model) None g = (None, s') \<and>
       length (grid_average s') = 4 \<and> X_COVID s' = Some [] \<and> Y_COVID s' = Some [])"
proof
  from GridData_init_ok [OF example_long_valid]
  obtain g where g: "GridData_init long_rows = Inr g" by blast
  from example_load obtain s' where
    s': "load_model ImportOk (Inr example_model) None g = (None, s')" by blast
  from GridData_init_lengths [OF g] grid_average_length [of long_rows] long_rows_dates
  have n: "length (grid_average g) = 1883" by simp
  from post_cutoff_slices [OF g s'] obtain xc yc where
    r: "grid_average s' = grid_average g" "X_COVID s' = Some xc" "Y_COVID s' = Some yc"
      "length xc = length yc"
      "1881 \<le> length (grid_average s') \<longrightarrow>
         int (length xc) = int (length (grid_average s')) - 1881"
    by blast
  from r(1,5) n have "length xc = 2" by simp
  with g s' r n
  show "\<exists>g s' xc yc. GridData_init long_rows = Inr g \<and>
       load_model ImportOk (Inr example_model) None g = (None, s') \<and>
       length (grid_average s') = 1883 \<and>
       X_COVID s' = Some xc \<and> Y_COVID s' = Some yc \<and> length xc = 2 \<and> length yc = 2"
    by auto
next
  from GridData_init_ok [OF example_rows_valid]
  obtain g where g: "GridData_init example_rows = Inr g" by blast
  from example_load obtain s' where
    s': "load_model ImportOk (Inr example_model) None g = (None, s')" by blast
  from example_init [OF g] have n: "length (grid_average g) = 4"
    by (simp add: example_grid_average)
  from post_cutoff_slices [OF g s'] obtain xc yc where
    r: "grid_average s' = grid_average g" "X_COVID s' = Some xc" "Y_COVID s' = Some yc"
      "length (grid_average s') \<le> 1881 \<longrightarrow> xc = [] \<and> yc = []"
    by blast
  from r(1,4) n have "xc = [] \<and> yc = []" by simp
  with g s' r n
  show "\<exists>g s'. GridData_init example_rows = Inr g \<and>
       load_model ImportOk (Inr example_model) None g = (None, s') \<and>
       length (grid_average s') = 4 \<and> X_COVID s' = Some [] \<and> Y_COVID s' = Some []"
    by auto
qed

text \<open>
  Claim C1. Let \<open>load_model\<close> run without raising on a model, and let
  \<open>load_model_output\<close> run on the same object with the dictionary precomputed from that
  model, the object's \<open>X\<close> and \<open>Y\<close> and the same forecast limit. Then
  \<open>load_model_output\<close> raises nothing either, and in both objects \<open>X_PREDICT\<close> is the
  grid of 1000 points, \<open>Y_PREDICT_mean\<close> and \<open>Y_PREDICT_conf\<close> are the model's prediction
  on it, \<open>X_COVID\<close> and \<open>Y_COVID\<close> are the rows from 1881 on, and the two remaining
  arrays are the model's prediction on \<open>X_COVID\<close>: every prediction array is set and equal
  in the two objects, as are the cutoff and the data of the constructor. Only
  \<open>forecast_limit\<close> may differ: \<open>load_model_output\<close> always stores 7.
\<close>

theorem load_variants_agree:
  assumes "load_model ImportOk (Inr m) fl_arg self = (None, s1)"
    and "limit = (case fl_arg of None \<Rightarrow> 7 | Some f \<Rightarrow> f)"
  shows "\<exists>s2 mean conf cmean cconf.
           load_model_output (Inr (precomputed_output m limit (X self) (Y self))) self =
             (None, s2) \<and>
           predict m (np_linspace 0 limit 1000) = Inr (mean, conf) \<and>
           predict m (drop 1881 (X self)) = Inr (cmean, cconf) \<and>
           X_PREDICT s1 = Some (np_linspace 0 limit 1000) \<and> X_PREDICT s2 = X_PREDICT s1 \<and>
           Y_PREDICT_mean s1 = Some mean \<and> Y_PREDICT_mean s2 = Y_PREDICT_mean s1 \<and>
           Y_PREDICT_conf s1 = Some conf \<and> Y_PREDICT_conf s2 = Y_PREDICT_conf s1 \<and>
           X_COVID s1 = Some (drop 1881 (X self)) \<and> X_COVID s2 = X_COVID s1 \<and>
           Y_COVID s1 = Some (drop 1881 (Y self)) \<and> Y_COVID s2 = Y_COVID s1 \<and>
           Y_COVID_PREDICT_mean s1 = Some cmean \<and>
           Y_COVID_PREDICT_mean s2 = Y_COVID_PREDICT_mean s1 \<and>
           Y_COVID_PREDICT_conf s1 = Some cconf \<and>
           Y_COVID_PREDICT_conf s2 = Y_COVID_PREDICT_conf s1 \<and>
           COVID_CUTOFF s1 = Some 1881 \<and> COVID_CUTOFF s2 = COVID_CUTOFF s1 \<and>
           forecast_limit s1 = Some limit \<and> forecast_limit s2 = Some 7 \<and>
           grid_average s2 = grid_average s1 \<and> X s2 = X s1 \<and> Y s2 = Y s1"
proof -
  have lim: "(case fl_arg of None \<Rightarrow> forecast_limit_default | Some f \<Rightarrow> f) = limit"
    by (cases fl_arg) (simp_all add: assms(2) forecast_limit_default_def)
  from load_model_success [OF assms(1)] obtain mean conf cmean cconf where
    p: "predict m (np_linspace 0 limit 1000) = Inr (mean, conf)"
      "predict m (drop 1881 (X self)) = Inr (cmean, cconf)"
    and s1: "s1 = self\<lparr>COVID_CUTOFF := Some 1881, forecast_limit := Some limit,
                     model := Some m, X_PREDICT := Some (np_linspace 0 limit 1000),
                     Y_PREDICT_mean := Some mean, Y_PREDICT_conf := Some conf,
                     X_COVID := Some (drop 1881 (X self)), Y_COVID := Some (drop 1881 (Y self)),
                     Y_COVID_PREDICT_mean := Some cmean, Y_COVID_PREDICT_conf := Some cconf\<rparr>"
    unfolding lim by auto
  note k = precomputed_output_keys [OF p, of "Y self"]
  have "\<exists>s2. load_model_output (Inr (precomputed_output m limit (X self) (Y self))) self =
             (None, s2) \<and>
           X_PREDICT s2 = X_PREDICT s1 \<and> Y_PREDICT_mean s2 = Y_PREDICT_mean s1 \<and>
           Y_PREDICT_conf s2 = Y_PREDICT_conf s1 \<and>
           X_COVID s2 = X_COVID s1 \<and> Y_COVID s2 = Y_COVID s1 \<and>
           Y_COVID_PREDICT_mean s2 = Y_COVID_PREDICT_mean s1 \<and>
           Y_COVID_PREDICT_conf s2 = Y_COVID_PREDICT_conf s1 \<and>
           COVID_CUTOFF s2 = COVID_CUTOFF s1 \<and> forecast_limit s2 = Some 7 \<and>
           grid_average s2 = grid_average s1 \<and> X s2 = X s1 \<and> Y s2 = Y s1"
    by (simp add: load_model_output_def Let_def k s1)
  moreover have "X_PREDICT s1 = Some (np_linspace 0 limit 1000) \<and>
      Y_PREDICT_mean s1 = Some mean \<and> Y_PREDICT_conf s1 = Some conf \<and>
      X_COVID s1 = Some (drop 1881 (X self)) \<and> Y_COVID s1 = Some (drop 1881 (Y self)) \<and>
      Y_COVID_PREDICT_mean s1 = Some cmean \<and> Y_COVID_PREDICT_conf s1 = Some cconf \<and>
      COVID_CUTOFF s1 = Some 1881 \<and> forecast_limit s1 = Some limit"
    by (simp add: s1)
  ultimately show ?thesis using p by blast
qed

theorem load_variants_agree_witness:
  "\<exists>g s1 s2.
      GridData_init long_rows = Inr g \<and>
      load_model ImportOk (Inr example_model) (Some 3) g = (None, s1) \<and>
      load_model_output (Inr (precomputed_output example_model 3 (X g) (Y g))) g = (None, s2) \<and>
      X_PREDICT s1 = Some (np_linspace 0 3 1000) \<and> X_PREDICT s2 = X_PREDICT s1 \<and>
      Y_PREDICT_mean s1 = Some (map (\<lambda>x. 30) (np_linspace 0 3 1000)) \<and>
      Y_PREDICT_mean s2 = Y_PREDICT_mean s1 \<and>
      Y_COVID s1 = Some [30, 30] \<and> Y_COVID s2 = Some [30, 30] \<and>
      forecast_limit s1 = Some 3 \<and> forecast_limit s2 = Some 7"
proof -
  from GridData_init_ok [OF example_long_valid]
  obtain g where g: "GridData_init long_rows = Inr g" by blast
  from example_load obtain s1 where
    s1: "load_model ImportOk (Inr example_model) (Some 3) g = (None, s1)" by blast
  have l: "(3::real) = (case Some 3 of None \<Rightarrow> 7 | Some f \<Rightarrow> f)" by simp
  from load_variants_agree [OF s1 l] obtain s2 mean conf where
    r: "load_model_output (Inr (precomputed_output example_model 3 (X g) (Y g))) g = (None, s2)"
      "predict example_model (np_linspace 0 3 1000) = Inr (mean, conf)"
      "X_PREDICT s1 = Some (np_linspace 0 3 1000)" "X_PREDICT s2 = X_PREDICT s1"
      "Y_PREDICT_mean s1 = Some mean" "Y_PREDICT_mean s2 = Y_PREDICT_mean s1"
      "Y_COVID s1 = Some (drop 1881 (Y g))" "Y_COVID s2 = Y_COVID s1"
      "forecast_limit s1 = Some 3" "forecast_limit s2 = Some 7"
    by blast
  from r(2) have mean: "mean = map (\<lambda>x. 30) (np_linspace 0 3 1000)"
    by (simp add: example_model_def)
  from long_rows_init [OF g] have "Y g = replicate 1883 30" by blast
  then have y: "drop 1881 (Y g) = [30, 30]" by (simp add: numeral_2_eq_2)
  from r(7,8) have y2: "Y_COVID s1 = Some [30, 30]" "Y_COVID s2 = Some [30, 30]"
    by (simp_all add: y)
  from r(5) have m1: "Y_PREDICT_mean s1 = Some (map (\<lambda>x. 30) (np_linspace 0 3 1000))"
    by (simp add: mean)
  from g s1 r(1,3,4,6,9,10) y2 m1 show ?thesis by blast
qed

section \<open>Claims about the plots\<close>

text \<open>
  Claim C9. With \<open>collapse=True\<close>, \<open>plot_demand_bkh\<close> draws one line per distinct year and
  takes its colour from a palette of six, at the position of the year in ascending order.
  With more than six distinct years the call raises \<open>IndexError\<close> and returns no figure;
  with at most six it returns a figure with one line per year, coloured by the first
  palette entries in order.
\<close>

theorem collapsed_palette_bound:
  "length colors = 6 \<and>
   (6 < card (set (map YEAR (grid_average self))) \<longrightarrow>
      plot_demand_bkh True color self = Inl IndexError) \<and>
   (card (set (map YEAR (grid_average self))) \<le> 6 \<longrightarrow>
      (\<exists>fig. plot_demand_bkh True color self = Inr fig \<and>
         length (glyphs fig) = card (set (map YEAR (grid_average self))) \<and>
         map (g_color \<circ> glyph_style_of) (glyphs fig) =
           map Some (take (card (set (map YEAR (grid_average self)))) colors)))"
proof -
  let ?years = "np_unique (map YEAR (grid_average self))"
  have n: "length ?years = card (set (map YEAR (grid_average self)))"
    by (rule np_unique_length)
  have over: "plot_demand_bkh True color self = Inl IndexError"
    if "6 < card (set (map YEAR (grid_average self)))"
  proof -
    from that n have "6 < 0 + length ?years" by simp
    with demand_lines_overflow [of 0 ?years "grid_average self" "[]"]
    have "demand_lines (grid_average self) ?years 0 [] = Inl IndexError" by simp
    then show ?thesis by (simp add: plot_demand_bkh_def)
  qed
  have within: "\<exists>fig. plot_demand_bkh True color self = Inr fig \<and>
         length (glyphs fig) = card (set (map YEAR (grid_average self))) \<and>
         map (g_color \<circ> glyph_style_of) (glyphs fig) =
           map Some (take (card (set (map YEAR (grid_average self)))) colors)"
    if "card (set (map YEAR (grid_average self))) \<le> 6"
  proof -
    from that n have "0 + length ?years \<le> 6" by simp
    from demand_lines_in_bounds [OF this, of "grid_average self" "[]"] obtain gs where
      gs: "demand_lines (grid_average self) ?years 0 [] = Inr gs" "length gs = length ?years"
        "map (g_color \<circ> glyph_style_of) gs = map Some (take (length ?years) colors)"
      by auto
    then show ?thesis by (simp add: plot_demand_bkh_def n)
  qed
  from over within colors_length show ?thesis by blast
qed

theorem collapsed_palette_bound_witness:
  "(\<exists>g. GridData_init seven_year_rows = Inr g \<and>
        card (set (map YEAR (grid_average g))) = 7 \<and>
        plot_demand_bkh True ''black'' g = Inl IndexError) \<and>
   (\<exists>g fig. GridData_init example_rows = Inr g \<and>
        card (set (map YEAR (grid_average g))) = 2 \<and>
        plot_demand_bkh True ''black'' g = Inr fig \<and> length (glyphs fig) = 2 \<and>
        map (g_color \<circ> glyph_style_of) (glyphs fig) = [Some ''darkgreen'', Some ''darkkhaki''])"
proof
  from GridData_init_ok [OF seven_year_rows_valid]
  obtain g where g: "GridData_init seven_year_rows = Inr g"
    and ga: "grid_average g = make_grid_average seven_year_rows" by blast
  have c: "card (set (map YEAR (grid_average g))) = 7"
    unfolding ga seven_year_rows_years by simp
  with collapsed_palette_bound [of g "''black''"]
  have "plot_demand_bkh True ''black'' g = Inl IndexError" by simp
  with g c show "\<exists>g. GridData_init seven_year_rows = Inr g \<and>
        card (set (map YEAR (grid_average g))) = 7 \<and>
        plot_demand_bkh True ''black'' g = Inl IndexError" by blast
next
  from GridData_init_ok [OF example_rows_valid]
  obtain g where g: "GridData_init example_rows = Inr g"
    and ga: "grid_average g = make_grid_average example_rows" by blast
  have c: "card (set (map YEAR (grid_average g))) = 2"
    unfolding ga example_grid_average by simp
  with collapsed_palette_bound [of g "''black''"] obtain fig where
    f: "plot_demand_bkh True ''black'' g = Inr fig" "length (glyphs fig) = 2"
      "map (g_color \<circ> glyph_style_of) (glyphs fig) = map Some (take 2 colors)"
    by auto
  have "map Some (take 2 colors) = [Some ''darkgreen'', Some ''darkkhaki'']"
    by (simp add: colors_def)
  with g c f show "\<exists>g fig. GridData_init example_rows = Inr g \<and>
        card (set (map YEAR (grid_average g))) = 2 \<and>
        plot_demand_bkh True ''black'' g = Inr fig \<and> length (glyphs fig) = 2 \<and>
        map (g_color \<circ> glyph_style_of) (glyphs fig) = [Some ''darkgreen'', Some ''darkkhaki'']"
    by auto
qed

text \<open>
  Claim C8. When \<open>plot_demand_discrepancy_bkh\<close> returns a figure, its last two glyphs are
  the dashed reference line and the mean line. Both have as x-values the dates of the rows
  from index \<open>COVID_CUTOFF\<close> on. The reference line has the y-value 1 at each of these
  dates. The y-values of the mean line are \<open>Y_COVID\<close> divided by
  \<open>Y_COVID_PREDICT_mean\<close>: for arrays of the same length, entry by entry, the real quotient
  wherever the predicted mean is not zero.
\<close>

theorem discrepancy_lines:
  assumes "plot_demand_discrepancy_bkh plot_confidence self = Inr fig"
  shows "\<exists>cutoff yc cmean ratio area.
           COVID_CUTOFF self = Some cutoff \<and> Y_COVID self = Some yc \<and>
           Y_COVID_PREDICT_mean self = Some cmean \<and> np_divide yc cmean = Inr ratio \<and>
           glyphs fig = area @
             [Line (Dates (drop cutoff (map DATE (grid_average self))))
                (replicate (length (grid_average self) - cutoff) (Finite 1))
                (no_style\<lparr>g_line_dash := Some ''dashed'', g_color := Some ''black''\<rparr>),
              Line (Dates (drop cutoff (map DATE (grid_average self)))) ratio
                (no_style\<lparr>g_legend_label := Some (LegendText ''Mean'')\<rparr>)] \<and>
           (length yc = length cmean \<longrightarrow>
              length ratio = length yc \<and>
              (\<forall>i<length yc. ratio ! i = float_div (yc ! i) (cmean ! i) \<and>
                 (cmean ! i \<noteq> 0 \<longrightarrow> ratio ! i = Finite (yc ! i / cmean ! i))))"
proof -
  from plot_discrepancy_Inr [OF assms] obtain area ref mean where
    r: "reference_line self = Inr ref" and m: "mean_line self = Inr mean"
    and g: "glyphs fig = area @ [ref, mean]" by blast
  from mean_line_Inr [OF m] obtain cutoff yc cmean ratio where
    a: "COVID_CUTOFF self = Some cutoff" "Y_COVID self = Some yc"
      "Y_COVID_PREDICT_mean self = Some cmean" "np_divide yc cmean = Inr ratio"
    and mean: "mean = Line (Dates (drop cutoff (map DATE (grid_average self)))) ratio
                 (no_style\<lparr>g_legend_label := Some (LegendText ''Mean'')\<rparr>)"
    by blast
  from reference_line_Inr [OF r] a(1)
  have ref: "ref = Line (Dates (drop cutoff (map DATE (grid_average self))))
                 (replicate (length (grid_average self) - cutoff) (Finite 1))
                 (no_style\<lparr>g_line_dash := Some ''dashed'', g_color := Some ''black''\<rparr>)"
    by auto
  have pt: "length ratio = length yc \<and>
            (\<forall>i<length yc. ratio ! i = float_div (yc ! i) (cmean ! i) \<and>
               (cmean ! i \<noteq> 0 \<longrightarrow> ratio ! i = Finite (yc ! i / cmean ! i)))"
    if "length yc = length cmean"
    using np_divide_same_length [OF that a(4)] by (simp add: float_div_nonzero)
  from a g pt show ?thesis unfolding ref mean by blast
qed

theorem discrepancy_lines_witness:
  "\<exists>g s fig area ds.
      GridData_init long_rows = Inr g \<and>
      load_model ImportOk (Inr example_model) None g = (None, s) \<and>
      plot_demand_discrepancy_bkh True s = Inr fig \<and>
      COVID_CUTOFF s = Some 1881 \<and>
      ds = drop 1881 (map DATE (grid_average s)) \<and> length ds = 2 \<and>
      Y_COVID s = Some [30, 30] \<and> Y_COVID_PREDICT_mean s = Some [30, 30] \<and>
      glyphs fig = area @
        [Line (Dates ds) [Finite 1, Finite 1]
           (no_style\<lparr>g_line_dash := Some ''dashed'', g_color := Some ''black''\<rparr>),
         Line (Dates ds) [Finite 1, Finite 1]
           (no_style\<lparr>g_legend_label := Some (LegendText ''Mean'')\<rparr>)]"
proof -
  from GridData_init_ok [OF example_long_valid]
  obtain g where g: "GridData_init long_rows = Inr g" by blast
  from example_load obtain s where
    s: "load_model ImportOk (Inr example_model) None g = (None, s)" by blast
  from s have s': "load_model ImportOk
      (Inr \<lparr>predict = (\<lambda>xs. Inr (map (\<lambda>x. 30) xs, map (\<lambda>x. 1) xs))\<rparr>) None g = (None, s)"
    by (simp add: example_model_def)
  from long_rows_loaded [OF g s']
  have c: "COVID_CUTOFF s = Some 1881"
    and n: "length (drop 1881 (map DATE (grid_average s))) = 2"
    and y: "Y_COVID s = Some [30, 30]" and m: "Y_COVID_PREDICT_mean s = Some [30, 30]"
    by blast+
  from long_rows_plot [OF g s'] obtain fig where
    fig: "plot_demand_discrepancy_bkh True s = Inr fig" by blast
  from discrepancy_lines [OF fig] c y m obtain ratio area where
    r: "np_divide [30, 30] [30, 30] = Inr ratio"
    and gl: "glyphs fig = area @
             [Line (Dates (drop 1881 (map DATE (grid_average s))))
                (replicate (length (grid_average s) - 1881) (Finite 1))
                (no_style\<lparr>g_line_dash := Some ''dashed'', g_color := Some ''black''\<rparr>),
              Line (Dates (drop 1881 (map DATE (grid_average s)))) ratio
                (no_style\<lparr>g_legend_label := Some (LegendText ''Mean'')\<rparr>)]"
    by auto
  from r have ratio: "ratio = [Finite 1, Finite 1]"
    by (simp add: np_divide_def np_elementwise_def float_div_def)
  from n have "length (grid_average s) - 1881 = 2" by simp
  then have ones: "replicate (length (grid_average s) - 1881) (Finite 1) = [Finite 1, Finite 1]"
    by (simp add: numeral_2_eq_2)
  from g s fig c n y m gl show ?thesis unfolding ratio ones by blast
qed

text \<open>
  Claim C10. With \<open>plot_confidence=True\<close> the figure starts with the confidence area, whose
  two bounds are \<open>Y_COVID\<close> divided by mean plus confidence and by mean minus confidence,
  computed without any check of the divisors. For arrays of the same length the first
  bound is finite at a point exactly when the confidence differs from minus the mean
  there, the second exactly when it differs from the mean. A model whose confidence equals
  its mean makes the second divisor zero: the plot still returns, with infinite entries.
\<close>

theorem confidence_band_divisors:
  "(plot_demand_discrepancy_bkh True self = Inr fig \<longrightarrow>
      (\<exists>cutoff yc cmean cconf y1 y2 rest.
         COVID_CUTOFF self = Some cutoff \<and> Y_COVID self = Some yc \<and>
         Y_COVID_PREDICT_mean self = Some cmean \<and> Y_COVID_PREDICT_conf self = Some cconf \<and>
         ratio_to (+) yc cmean cconf = Inr y1 \<and> ratio_to (-) yc cmean cconf = Inr y2 \<and>
         glyphs fig =
           VArea (Dates (drop cutoff (map DATE (grid_average self)))) y1 y2
             (no_style\<lparr>g_alpha := Some 0.2,
                       g_legend_label := Some (LegendText ''Confidence'')\<rparr>) # rest \<and>
         (length cmean = length cconf \<and> length yc = length cmean \<longrightarrow>
            (\<forall>i<length yc.
               y1 ! i = float_div (yc ! i) (cmean ! i + cconf ! i) \<and>
               y2 ! i = float_div (yc ! i) (cmean ! i - cconf ! i) \<and>
               is_finite (y1 ! i) = (cconf ! i \<noteq> - cmean ! i) \<and>
               is_finite (y2 ! i) = (cconf ! i \<noteq> cmean ! i))))) \<and>
   (\<exists>g s fig x st rest.
      GridData_init long_rows = Inr g \<and>
      load_model ImportOk (Inr degenerate_model) None g = (None, s) \<and>
      Y_COVID_PREDICT_mean s = Some [30, 30] \<and> Y_COVID_PREDICT_conf s = Some [30, 30] \<and>
      plot_demand_discrepancy_bkh True s = Inr fig \<and>
      glyphs fig = VArea x [Finite (1 / 2), Finite (1 / 2)] [PosInf, PosInf] st # rest)"
proof
  show "plot_demand_discrepancy_bkh True self = Inr fig \<longrightarrow>
      (\<exists>cutoff yc cmean cconf y1 y2 rest.
         COVID_CUTOFF self = Some cutoff \<and> Y_COVID self = Some yc \<and>
         Y_COVID_PREDICT_mean self = Some cmean \<and> Y_COVID_PREDICT_conf self = Some cconf \<and>
         ratio_to (+) yc cmean cconf = Inr y1 \<and> ratio_to (-) yc cmean cconf = Inr y2 \<and>
         glyphs fig =
           VArea (Dates (drop cutoff (map DATE (grid_average self)))) y1 y2
             (no_style\<lparr>g_alpha := Some 0.2,
                       g_legend_label := Some (LegendText ''Confidence'')\<rparr>) # rest \<and>
         (length cmean = length cconf \<and> length yc = length cmean \<longrightarrow>
            (\<forall>i<length yc.
               y1 ! i = float_div (yc ! i) (cmean ! i + cconf ! i) \<and>
               y2 ! i = float_div (yc ! i) (cmean ! i - cconf ! i) \<and>
               is_finite (y1 ! i) = (cconf ! i \<noteq> - cmean ! i) \<and>
               is_finite (y2 ! i) = (cconf ! i \<noteq> cmean ! i))))"
  proof
    assume p: "plot_demand_discrepancy_bkh True self = Inr fig"
    from plot_discrepancy_Inr [OF p] obtain a ref mean where
      ar: "confidence_area self = Inr a" and gl: "glyphs fig = [a] @ [ref, mean]" by auto
    from confidence_area_Inr [OF ar] obtain cutoff yc cmean cconf y1 y2 where
      at: "COVID_CUTOFF self = Some cutoff" "Y_COVID self = Some yc"
        "Y_COVID_PREDICT_mean self = Some cmean" "Y_COVID_PREDICT_conf self = Some cconf"
      and r1: "ratio_to (+) yc cmean cconf = Inr y1"
      and r2: "ratio_to (-) yc cmean cconf = Inr y2"
      and a: "a = VArea (Dates (drop cutoff (map DATE (grid_average self)))) y1 y2
                 (no_style\<lparr>g_alpha := Some 0.2,
                           g_legend_label := Some (LegendText ''Confidence'')\<rparr>)"
      by blast
    have pt: "\<forall>i<length yc.
               y1 ! i = float_div (yc ! i) (cmean ! i + cconf ! i) \<and>
               y2 ! i = float_div (yc ! i) (cmean ! i - cconf ! i) \<and>
               is_finite (y1 ! i) = (cconf ! i \<noteq> - cmean ! i) \<and>
               is_finite (y2 ! i) = (cconf ! i \<noteq> cmean ! i)"
      if l: "length cmean = length cconf \<and> length yc = length cmean"
    proof (intro allI impI)
      fix i assume i: "i < length yc"
      from l have l1: "length cmean = length cconf" and l2: "length yc = length cmean"
        by simp_all
      from ratio_to_same_length [OF l1 l2 r1] i
      have e1: "y1 ! i = float_div (yc ! i) (cmean ! i + cconf ! i)" by simp
      from ratio_to_same_length [OF l1 l2 r2] i
      have e2: "y2 ! i = float_div (yc ! i) (cmean ! i - cconf ! i)" by simp
      have "(cmean ! i + cconf ! i \<noteq> 0) = (cconf ! i \<noteq> - cmean ! i)" by linarith
      moreover have "(cmean ! i - cconf ! i \<noteq> 0) = (cconf ! i \<noteq> cmean ! i)" by linarith
      ultimately show "y1 ! i = float_div (yc ! i) (cmean ! i + cconf ! i) \<and>
               y2 ! i = float_div (yc ! i) (cmean ! i - cconf ! i) \<and>
               is_finite (y1 ! i) = (cconf ! i \<noteq> - cmean ! i) \<and>
               is_finite (y2 ! i) = (cconf ! i \<noteq> cmean ! i)"
        using e1 e2 by (simp add: is_finite_float_div)
    qed
    from gl a have "glyphs fig =
           VArea (Dates (drop cutoff (map DATE (grid_average self)))) y1 y2
             (no_style\<lparr>g_alpha := Some 0.2,
                       g_legend_label := Some (LegendText ''Confidence'')\<rparr>) # [ref, mean]"
      by simp
    with at r1 r2 pt show "\<exists>cutoff yc cmean cconf y1 y2 rest.
         COVID_CUTOFF self = Some cutoff \<and> Y_COVID self = Some yc \<and>
         Y_COVID_PREDICT_mean self = Some cmean \<and> Y_COVID_PREDICT_conf self = Some cconf \<and>
         ratio_to (+) yc cmean cconf = Inr y1 \<and> ratio_to (-) yc cmean cconf = Inr y2 \<and>
         glyphs fig =
           VArea (Dates (drop cutoff (map DATE (grid_average self)))) y1 y2
             (no_style\<lparr>g_alpha := Some 0.2,
                       g_legend_label := Some (LegendText ''Confidence'')\<rparr>) # rest \<and>
         (length cmean = length cconf \<and> length yc = length cmean \<longrightarrow>
            (\<forall>i<length yc.
               y1 ! i = float_div (yc ! i) (cmean ! i + cconf ! i) \<and>
               y2 ! i = float_div (yc ! i) (cmean ! i - cconf ! i) \<and>
               is_finite (y1 ! i) = (cconf ! i \<noteq> - cmean ! i) \<and>
               is_finite (y2 ! i) = (cconf ! i \<noteq> cmean ! i)))"
      by blast
  qed
next
  from GridData_init_ok [OF example_long_valid]
  obtain g where g: "GridData_init long_rows = Inr g" by blast
  have "\<exists>s. load_model ImportOk (Inr degenerate_model) None g = (None, s)"
    by (simp add: load_model_def degenerate_model_def Let_def)
  then obtain s where s: "load_model ImportOk (Inr degenerate_model) None g = (None, s)" by blast
  then have s': "load_model ImportOk
      (Inr \<lparr>predict = (\<lambda>xs. Inr (map (\<lambda>x. 30) xs, map (\<lambda>x. 30) xs))\<rparr>) None g = (None, s)"
    by (simp add: degenerate_model_def)
  from long_rows_loaded [OF g s']
  have m: "Y_COVID_PREDICT_mean s = Some [30, 30]"
    and f: "Y_COVID_PREDICT_conf s = Some [30, 30]" by blast+
  have d1: "float_div 30 (30 + 30) = Finite (1 / 2)" by (simp add: float_div_def)
  have d2: "float_div 30 (30 - 30) = PosInf" by (simp add: float_div_def)
  from long_rows_plot [OF g s'] obtain fig x st rest where
    "plot_demand_discrepancy_bkh True s = Inr fig"
    "glyphs fig = VArea x [Finite (1 / 2), Finite (1 / 2)] [PosInf, PosInf] st # rest"
    unfolding d1 d2 by force
  with g s m f show "\<exists>g s fig x st rest.
      GridData_init long_rows = Inr g \<and>
      load_model ImportOk (Inr degenerate_model) None g = (None, s) \<and>
      Y_COVID_PREDICT_mean s = Some [30, 30] \<and> Y_COVID_PREDICT_conf s = Some [30, 30] \<and>
      plot_demand_discrepancy_bkh True s = Inr fig \<and>
      glyphs fig = VArea x [Finite (1 / 2), Finite (1 / 2)] [PosInf, PosInf] st # rest"
    by blast
qed

theorem confidence_band_divisors_witness:
  "\<exists>g s fig x y1 y2 st rest.
      GridData_init long_rows = Inr g \<and>
      load_model ImportOk (Inr example_model) None g = (None, s) \<and>
      plot_demand_discrepancy_bkh True s = Inr fig \<and>
      Y_COVID s = Some [30, 30] \<and>
      Y_COVID_PREDICT_mean s = Some [30, 30] \<and> Y_COVID_PREDICT_conf s = Some [1, 1] \<and>
      glyphs fig = VArea x y1 y2 st # rest \<and>
      y1 ! 0 = Finite (30 / 31) \<and> y2 ! 0 = Finite (30 / 29) \<and>
      is_finite (y1 ! 0) \<and> is_finite (y2 ! 0)"
proof -
  from GridData_init_ok [OF example_long_valid]
  obtain g where g: "GridData_init long_rows = Inr g" by blast
  from example_load obtain s where
    s: "load_model ImportOk (Inr example_model) None g = (None, s)" by blast
  from s have s': "load_model ImportOk
      (Inr \<lparr>predict = (\<lambda>xs. Inr (map (\<lambda>x. 30) xs, map (\<lambda>x. 1) xs))\<rparr>) None g = (None, s)"
    by (simp add: example_model_def)
  from long_rows_loaded [OF g s']
  have y: "Y_COVID s = Some [30, 30]" and m: "Y_COVID_PREDICT_mean s = Some [30, 30]"
    and f: "Y_COVID_PREDICT_conf s = Some [1, 1]"
    by blast+
  from long_rows_plot [OF g s'] obtain fig where
    fig: "plot_demand_discrepancy_bkh True s = Inr fig" by blast
  from confidence_band_divisors [of s fig] fig y m f
  obtain cutoff y1 y2 rest where
    gl: "glyphs fig =
           VArea (Dates (drop cutoff (map DATE (grid_average s)))) y1 y2
             (no_style\<lparr>g_alpha := Some 0.2,
                       g_legend_label := Some (LegendText ''Confidence'')\<rparr>) # rest"
    and pt: "length [30, 30 :: real] = length [1, 1 :: real] \<and>
             length [30, 30 :: real] = length [30, 30 :: real] \<longrightarrow>
             (\<forall>i<length [30, 30 :: real].
               y1 ! i = float_div ([30, 30] ! i) ([30, 30] ! i + [1, 1] ! i) \<and>
               y2 ! i = float_div ([30, 30] ! i) ([30, 30] ! i - [1, 1] ! i) \<and>
               is_finite (y1 ! i) = ([1, 1] ! i \<noteq> - [30, 30 :: real] ! i) \<and>
               is_finite (y2 ! i) = ([1, 1] ! i \<noteq> [30, 30 :: real] ! i))"
    by auto
  from pt have "y1 ! 0 = float_div 30 (30 + 1) \<and> y2 ! 0 = float_div 30 (30 - 1)"
    by simp
  then have v: "y1 ! 0 = Finite (30 / 31)" "y2 ! 0 = Finite (30 / 29)"
    "is_finite (y1 ! 0)" "is_finite (y2 ! 0)"
    by (simp_all add: float_div_def is_finite_def)
  from g s fig y m f gl v show ?thesis by blast
qed

end
